theory Spec2Isabelle
  imports Complex_Main
begin

section \<open>JavaScript values used by the controller\<close>

text \<open>
  Strings are byte strings; the model follows the code on ASCII text. Instants are
  the millisecond values of valid \<^verbatim>\<open>Date\<close> objects. Values read from
  \<^verbatim>\<open>req.query\<close> and \<^verbatim>\<open>req.body\<close> are optional strings
  (\<open>None\<close> is \<^verbatim>\<open>undefined\<close>). Numbers are exact integers, which the
  code's doubles are below \<open>2 ^ 53\<close>. Document identifiers are natural numbers, and
  reading a document by its identifier does not fail.
\<close>

type_synonym time = int

datatype jsdate = Date time | InvalidDate

definition truthy :: "string option \<Rightarrow> bool" where
  "truthy v = (case v of None \<Rightarrow> False | Some s \<Rightarrow> s \<noteq> [])"

definition toLowerChar :: "char \<Rightarrow> char" where
  "toLowerChar c =
     (case map_of (zip ''ABCDEFGHIJKLMNOPQRSTUVWXYZ'' ''abcdefghijklmnopqrstuvwxyz'') c of
        Some d \<Rightarrow> d
      | None \<Rightarrow> c)"

definition toLowerCase :: "string \<Rightarrow> string" where
  "toLowerCase s = map toLowerChar s"

definition isSpace :: "char \<Rightarrow> bool" where
  "isSpace c = (c \<in> set [CHR '' '', CHR 0x09, CHR 0x0A, CHR 0x0B, CHR 0x0C, CHR 0x0D])"

definition trim :: "string \<Rightarrow> string" where
  "trim s = rev (dropWhile isSpace (rev (dropWhile isSpace s)))"

definition isDigit :: "char \<Rightarrow> bool" where
  "isDigit c = (c \<in> set ''0123456789'')"

definition digitVal :: "char \<Rightarrow> nat" where
  "digitVal c =
     (case map_of (zip ''0123456789'' [0, 1, 2, 3, 4, 5, 6, 7, 8, 9]) c of
        Some d \<Rightarrow> d
      | None \<Rightarrow> 0)"

definition digitsVal :: "string \<Rightarrow> nat" where
  "digitsVal ds = foldl (\<lambda>a c. 10 * a + digitVal c) 0 ds"

text \<open>
  \<^verbatim>\<open>parseInt(s, 10)\<close>: leading white space is skipped, one sign is read, then the
  longest run of decimal digits; no digit at all gives \<^verbatim>\<open>NaN\<close> (\<open>None\<close>).
\<close>

definition parseInt :: "string \<Rightarrow> int option" where
  "parseInt s =
     (let t = dropWhile isSpace s;
          neg = (take 1 t = ''-'');
          u = (if take 1 t = ''-'' \<or> take 1 t = ''+'' then drop 1 t else t);
          ds = takeWhile isDigit u
      in if ds = [] then None
         else Some (if neg then - int (digitsVal ds) else int (digitsVal ds)))"

text \<open>\<^verbatim>\<open>n || d\<close> on a number: \<^verbatim>\<open>NaN\<close> and \<^verbatim>\<open>0\<close> are falsy.\<close>

definition or_default :: "int option \<Rightarrow> int \<Rightarrow> int" where
  "or_default v d = (case v of None \<Rightarrow> d | Some n \<Rightarrow> if n = 0 then d else n)"

definition digitChar :: "nat \<Rightarrow> char" where
  "digitChar n = ''0123456789'' ! (n mod 10)"

text \<open>\<^verbatim>\<open>String(n)\<close> for a non-negative integer.\<close>

fun String_of :: "nat \<Rightarrow> string" where
  "String_of n = (if n < 10 then [digitChar n] else String_of (n div 10) @ [digitChar n])"

declare String_of.simps [simp del]

definition padStart :: "nat \<Rightarrow> char \<Rightarrow> string \<Rightarrow> string" where
  "padStart n c s = replicate (n - length s) c @ s"

section \<open>The path module (POSIX)\<close>

text \<open>
  \<open>last_part\<close> is the last portion of a path, trailing separators ignored.
  \<^verbatim>\<open>path.extname\<close> is the text from the last dot of that portion to its end, and
  empty when there is no dot, when the only dot is the first character, or when the
  portion is \<^verbatim>\<open>..\<close>. \<^verbatim>\<open>path.basename(p, ext)\<close> is the last portion with
  the suffix \<open>ext\<close> removed when the portion ends with it and is longer than it.
\<close>

definition last_part :: "string \<Rightarrow> string" where
  "last_part p =
     rev (takeWhile (\<lambda>c. c \<noteq> CHR ''/'') (dropWhile (\<lambda>c. c = CHR ''/'') (rev p)))"

definition extname :: "string \<Rightarrow> string" where
  "extname p =
     (let b = last_part p;
          e = rev (takeWhile (\<lambda>c. c \<noteq> CHR ''.'') (rev b))
      in if CHR ''.'' \<notin> set b then []
         else if length e + 1 = length b then []
         else if b = ''..'' then []
         else CHR ''.'' # e)"

definition basename :: "string \<Rightarrow> string \<Rightarrow> string" where
  "basename p ext =
     (let b = last_part p
      in if ext \<noteq> [] \<and> ext = p then []
         else if ext \<noteq> [] \<and> length ext < length b \<and> drop (length b - length ext) b = ext
           then take (length b - length ext) b
         else b)"

section \<open>Dates\<close>

definition msPerDay :: int where
  "msPerDay = 86400000"

text \<open>Days from 1970-01-01 to a date of the proleptic Gregorian calendar.\<close>

definition days_from_civil :: "int \<Rightarrow> int \<Rightarrow> int \<Rightarrow> int" where
  "days_from_civil y m d =
     (let y' = (if m \<le> 2 then y - 1 else y);
          era = y' div 400;
          yoe = y' - era * 400;
          doy = (153 * (if 2 < m then m - 3 else m + 9) + 2) div 5 + d - 1;
          doe = yoe * 365 + yoe div 4 - yoe div 100 + doy
      in era * 146097 + doe - 719468)"

definition isLeap :: "int \<Rightarrow> bool" where
  "isLeap y = (y mod 4 = 0 \<and> (if y mod 100 = 0 then y mod 400 = 0 else True))"

definition days_in_month :: "int \<Rightarrow> int \<Rightarrow> int" where
  "days_in_month y m =
     (if m = 2 then (if isLeap y then 29 else 28)
      else if m \<in> set [4, 6, 9, 11] then 30 else 31)"

text \<open>
  The date-only form \<^verbatim>\<open>YYYY-MM-DD\<close> of a calendar date, the form the README
  documents for \<^verbatim>\<open>startDate\<close> and \<^verbatim>\<open>endDate\<close> and the form a date input
  of the front end sends.
\<close>

definition parse_date_only :: "string \<Rightarrow> (int \<times> int \<times> int) option" where
  "parse_date_only s =
     (let y = int (digitsVal (take 4 s));
          m = int (digitsVal (take 2 (drop 5 s)));
          d = int (digitsVal (drop 8 s))
      in if length s = 10 \<and> list_all isDigit (take 4 s) \<and> take 1 (drop 4 s) = ''-''
            \<and> list_all isDigit (take 2 (drop 5 s)) \<and> take 1 (drop 7 s) = ''-''
            \<and> list_all isDigit (drop 8 s)
            \<and> 1 \<le> m \<and> m \<le> 12 \<and> 1 \<le> d \<and> d \<le> days_in_month y m
         then Some (y, m, d) else None)"

text \<open>The instant of 00:00:00.000 UTC of a date-only string.\<close>

definition utc_midnight :: "string \<Rightarrow> time option" where
  "utc_midnight s =
     (case parse_date_only s of
        Some (y, m, d) \<Rightarrow> Some (days_from_civil y m d * msPerDay)
      | None \<Rightarrow> None)"

section \<open>The FileRecord model\<close>

record FileRecord =
  rec_id :: nat
  description :: string
  fileName :: string
  originalName :: string
  filePath :: string
  fileType :: string
  fileSize :: nat
  mimeType :: string
  fileDate :: "time option"
  letterReferenceNumber :: "string option"
  uploadedBy :: nat
  uploadDateTime :: time

definition FILE_TYPE_CHOICES :: "string list" where
  "FILE_TYPE_CHOICES = [''PDF'', ''DOCX'', ''XLSX'', ''Image'', ''Other'']"

text \<open>The \<^verbatim>\<open>switch (ext)\<close> of the pre-save middleware.\<close>

definition switch_ext :: "string \<Rightarrow> string" where
  "switch_ext ext =
     (if ext = ''.pdf'' then ''PDF''
      else if ext = ''.docx'' \<or> ext = ''.doc'' then ''DOCX''
      else if ext = ''.xlsx'' \<or> ext = ''.xls'' then ''XLSX''
      else if ext = ''.jpg'' \<or> ext = ''.jpeg'' \<or> ext = ''.png'' \<or> ext = ''.gif''
              \<or> ext = ''.bmp'' \<or> ext = ''.webp'' then ''Image''
      else ''Other'')"

text \<open>\<^verbatim>\<open>FileRecordSchema.pre('save', ...)\<close>.\<close>

definition pre_save :: "FileRecord \<Rightarrow> FileRecord" where
  "pre_save this =
     (if fileName this \<noteq> []
      then (let ext = toLowerCase (extname (fileName this))
            in this\<lparr>fileType := switch_ext ext\<rparr>)
      else this)"

text \<open>
  The validators of the schema, on values that went through the schema's
  \<^verbatim>\<open>trim\<close> setters: \<^verbatim>\<open>required\<close> rejects the empty string.
\<close>

definition validate :: "FileRecord \<Rightarrow> bool" where
  "validate r =
     (description r \<noteq> [] \<and> length (description r) \<le> 2000
      \<and> fileName r \<noteq> [] \<and> originalName r \<noteq> [] \<and> filePath r \<noteq> []
      \<and> fileType r \<in> set FILE_TYPE_CHOICES
      \<and> (case letterReferenceNumber r of None \<Rightarrow> True | Some s \<Rightarrow> length s \<le> 255))"

section \<open>Requests, responses and the two stores\<close>

text \<open>\<^verbatim>\<open>req.file\<close> as multer's disk storage fills it in.\<close>

record upload =
  up_filename :: string
  up_originalname :: string
  up_path :: string
  up_size :: nat
  up_mimetype :: string

record body =
  b_description :: "string option"
  b_fileDate :: "string option"
  b_letterReferenceNumber :: "string option"

record response =
  status :: nat
  success :: bool
  message :: string
  data :: "FileRecord option"

text \<open>
  The uploads directory maps a path to the object found there. \<open>Locked\<close> is an object
  that exists and cannot be unlinked (a directory, a file the process may not remove, a
  file in use): \<^verbatim>\<open>fs.unlinkSync\<close> throws on it, as it does on a missing path.
\<close>

datatype blob = Removable | Locked

type_synonym fs = "string \<Rightarrow> blob option"

datatype exn = ENOENT | EPERM | SaveRejected | DbError

record world =
  files :: fs
  rows :: "FileRecord list"

definition existsSync :: "fs \<Rightarrow> string \<Rightarrow> bool" where
  "existsSync f p = (f p \<noteq> None)"

definition unlinkSync :: "fs \<Rightarrow> string \<Rightarrow> exn + fs" where
  "unlinkSync f p =
     (case f p of
        None \<Rightarrow> Inl ENOENT
      | Some Locked \<Rightarrow> Inl EPERM
      | Some Removable \<Rightarrow> Inr (f(p := None)))"

text \<open>
  What the code takes from its libraries and its process, as parameters: the regular
  expression engine behind \<^verbatim>\<open>$regex\<close> with option \<^verbatim>\<open>i\<close> (\<open>None\<close> for a
  pattern that does not compile), the ordering \<^verbatim>\<open>.sort\<close> applies, the cast of a
  string to a \<^verbatim>\<open>Date\<close> schema path, \<^verbatim>\<open>Date\<close> parsing of strings that are
  not date-only, \<^verbatim>\<open>toISOString\<close>, the offset of local time from UTC in
  milliseconds, the clock, the identifier given to a new document, and whether the
  database accepts the write of this request.
\<close>

record env =
  regex_i :: "string \<Rightarrow> (string \<Rightarrow> bool) option"
  mongo_sort :: "string \<times> int \<Rightarrow> FileRecord list \<Rightarrow> FileRecord list"
  castDate :: "string \<Rightarrow> time option"
  date_parse :: "string \<Rightarrow> time option"
  toISOString :: "time \<Rightarrow> string"
  localTZA :: int
  now :: time
  fresh_id :: nat
  db_write_ok :: bool

text \<open>
  \<^verbatim>\<open>new Date(s)\<close>: a date-only string is the UTC midnight of its date; any other
  string is left to the engine.
\<close>

definition new_Date :: "env \<Rightarrow> string \<Rightarrow> jsdate" where
  "new_Date e s =
     (case utc_midnight s of
        Some t \<Rightarrow> Date t
      | None \<Rightarrow> (case date_parse e s of Some t \<Rightarrow> Date t | None \<Rightarrow> InvalidDate))"

text \<open>
  \<^verbatim>\<open>end.setHours(23, 59, 59, 999)\<close>: the last millisecond of the local day that
  holds the instant.
\<close>

definition setHours_end :: "env \<Rightarrow> jsdate \<Rightarrow> jsdate" where
  "setHours_end e d =
     (case d of
        InvalidDate \<Rightarrow> InvalidDate
      | Date t \<Rightarrow> Date (((t + localTZA e) div msPerDay) * msPerDay + 86399999 - localTZA e))"

subsection \<open>The record store\<close>

definition findById :: "FileRecord list \<Rightarrow> nat \<Rightarrow> FileRecord option" where
  "findById rs i = find (\<lambda>r. rec_id r = i) rs"

text \<open>
  \<^verbatim>\<open>document.save()\<close>: the cast of the assigned values and the validators run
  first, then the pre-save middleware, then the write. \<open>None\<close> is a rejected save.
\<close>

definition save_new :: "env \<Rightarrow> bool \<Rightarrow> FileRecord \<Rightarrow> FileRecord list
    \<Rightarrow> (FileRecord \<times> FileRecord list) option" where
  "save_new e cast_ok doc rs =
     (if cast_ok \<and> validate doc \<and> db_write_ok e \<and> rec_id doc \<notin> set (map rec_id rs)
      then Some (pre_save doc, rs @ [pre_save doc])
      else None)"

definition save_existing :: "env \<Rightarrow> bool \<Rightarrow> FileRecord \<Rightarrow> FileRecord list
    \<Rightarrow> (FileRecord \<times> FileRecord list) option" where
  "save_existing e cast_ok doc rs =
     (if cast_ok \<and> validate doc \<and> db_write_ok e
      then Some (pre_save doc, map (\<lambda>r. if rec_id r = rec_id doc then pre_save doc else r) rs)
      else None)"

definition findByIdAndDelete :: "env \<Rightarrow> nat \<Rightarrow> FileRecord list \<Rightarrow> FileRecord list option" where
  "findByIdAndDelete e i rs =
     (if db_write_ok e then Some (filter (\<lambda>r. rec_id r \<noteq> i) rs) else None)"

text \<open>\<^verbatim>\<open>fileDate || null\<close> assigned to the Date path; \<open>None\<close> is a cast error.\<close>

definition cast_fileDate :: "env \<Rightarrow> string option \<Rightarrow> time option option" where
  "cast_fileDate e v =
     (case v of
        None \<Rightarrow> Some None
      | Some s \<Rightarrow>
          if s = [] then Some None
          else (case castDate e s of None \<Rightarrow> None | Some t \<Rightarrow> Some (Some t)))"

text \<open>\<^verbatim>\<open>letterReferenceNumber || null\<close> assigned to a trimmed String path.\<close>

definition set_letterRef :: "string option \<Rightarrow> string option" where
  "set_letterRef v =
     (case v of None \<Rightarrow> None | Some s \<Rightarrow> if s = [] then None else Some (trim s))"

definition fail_response :: "nat \<Rightarrow> string \<Rightarrow> response" where
  "fail_response code msg = \<lparr>status = code, success = False, message = msg, data = None\<rparr>"

definition ok_response :: "nat \<Rightarrow> string \<Rightarrow> FileRecord option \<Rightarrow> response" where
  "ok_response code msg d = \<lparr>status = code, success = True, message = msg, data = d\<rparr>"

section \<open>The file controller: create, update, delete\<close>

text \<open>
  A handler is a \<^verbatim>\<open>try\<close> block and its \<^verbatim>\<open>catch\<close>. The \<^verbatim>\<open>try\<close> block
  either sends a response (\<open>Inr\<close>) or throws (\<open>Inl\<close>), in both cases with the stores
  as they are at that point. The handler returns the response sent, \<open>None\<close> when an
  exception leaves the \<^verbatim>\<open>catch\<close> block and nothing is sent. The socket broadcast
  touches neither store and is left out.
\<close>

definition new_FileRecord :: "env \<Rightarrow> string \<Rightarrow> upload \<Rightarrow> time option \<Rightarrow> string option
    \<Rightarrow> nat \<Rightarrow> FileRecord" where
  "new_FileRecord e description' file fileDate' letterRef uid =
     \<lparr>rec_id = fresh_id e,
      description = trim description',
      fileName = trim (up_filename file),
      originalName = trim (up_originalname file),
      filePath = up_path file,
      fileType = ''Other'',
      fileSize = up_size file,
      mimeType = trim (up_mimetype file),
      fileDate = fileDate',
      letterReferenceNumber = letterRef,
      uploadedBy = uid,
      uploadDateTime = now e\<rparr>"

text \<open>The document built at lines 168 to 178 from the request.\<close>

definition create_doc :: "env \<Rightarrow> body \<Rightarrow> upload \<Rightarrow> nat \<Rightarrow> FileRecord" where
  "create_doc e b f uid =
     new_FileRecord e (trim (case b_description b of None \<Rightarrow> [] | Some d \<Rightarrow> d)) f
       (case cast_fileDate e (b_fileDate b) of None \<Rightarrow> None | Some v \<Rightarrow> v)
       (set_letterRef (b_letterReferenceNumber b)) uid"

definition create_try :: "env \<Rightarrow> body \<Rightarrow> upload option \<Rightarrow> nat \<Rightarrow> world
    \<Rightarrow> (exn \<times> world) + (response \<times> world)" where
  "create_try e b file uid w =
     (if (case b_description b of None \<Rightarrow> True | Some d \<Rightarrow> d = [] \<or> trim d = [])
      then (case file of
              Some f \<Rightarrow>
                (case unlinkSync (files w) (up_path f) of
                   Inl err \<Rightarrow> Inl (err, w)
                 | Inr fs' \<Rightarrow>
                     Inr (fail_response 400 ''Description is required'', w\<lparr>files := fs'\<rparr>))
            | None \<Rightarrow> Inr (fail_response 400 ''Description is required'', w))
      else (case file of
              None \<Rightarrow> Inr (fail_response 400 ''Please upload a file'', w)
            | Some f \<Rightarrow>
                (case save_new e (cast_fileDate e (b_fileDate b) \<noteq> None)
                        (create_doc e b f uid) (rows w) of
                   None \<Rightarrow> Inl (SaveRejected, w)
                 | Some (saved, rs) \<Rightarrow>
                     Inr (ok_response 201 ''File uploaded successfully'' (Some saved),
                          w\<lparr>rows := rs\<rparr>))))"

text \<open>
  The \<^verbatim>\<open>catch\<close> block of create and of update: remove the uploaded file if it is
  still there, then answer 500.
\<close>

definition cleanup_catch :: "string \<Rightarrow> upload option \<Rightarrow> world \<Rightarrow> response option \<times> world" where
  "cleanup_catch msg file w =
     (case file of
        None \<Rightarrow> (Some (fail_response 500 msg), w)
      | Some f \<Rightarrow>
          if existsSync (files w) (up_path f)
          then (case unlinkSync (files w) (up_path f) of
                  Inl err \<Rightarrow> (None, w)
                | Inr fs' \<Rightarrow> (Some (fail_response 500 msg), w\<lparr>files := fs'\<rparr>))
          else (Some (fail_response 500 msg), w))"

definition createFileRecord :: "env \<Rightarrow> body \<Rightarrow> upload option \<Rightarrow> nat \<Rightarrow> world
    \<Rightarrow> response option \<times> world" where
  "createFileRecord e b file uid w =
     (case create_try e b file uid w of
        Inr (res, w') \<Rightarrow> (Some res, w')
      | Inl (err, w') \<Rightarrow> cleanup_catch ''Error uploading file'' file w')"

text \<open>The assignments of lines 234 to 245, with the cast status of \<^verbatim>\<open>fileDate\<close>.\<close>

definition update_fields :: "env \<Rightarrow> body \<Rightarrow> FileRecord \<Rightarrow> FileRecord \<times> bool" where
  "update_fields e b record0 =
     (let r1 = (case b_description b of
                  None \<Rightarrow> record0
                | Some d \<Rightarrow> if d \<noteq> [] then record0\<lparr>description := trim (trim d)\<rparr> else record0);
          cast = (case b_fileDate b of None \<Rightarrow> Some (fileDate r1) | Some s \<Rightarrow> cast_fileDate e (Some s));
          r2 = (case cast of None \<Rightarrow> r1 | Some v \<Rightarrow> r1\<lparr>fileDate := v\<rparr>);
          r3 = (case b_letterReferenceNumber b of
                  None \<Rightarrow> r2
                | Some s \<Rightarrow> r2\<lparr>letterReferenceNumber := set_letterRef (Some s)\<rparr>)
      in (r3, cast \<noteq> None))"

definition update_file_info :: "upload \<Rightarrow> FileRecord \<Rightarrow> FileRecord" where
  "update_file_info f r =
     r\<lparr>fileName := trim (up_filename f),
       originalName := trim (up_originalname f),
       filePath := up_path f,
       fileSize := up_size f,
       mimeType := trim (up_mimetype f)\<rparr>"

definition update_save :: "env \<Rightarrow> bool \<Rightarrow> FileRecord \<Rightarrow> world
    \<Rightarrow> (exn \<times> world) + (response \<times> world)" where
  "update_save e cast_ok r w =
     (case save_existing e cast_ok r (rows w) of
        None \<Rightarrow> Inl (SaveRejected, w)
      | Some (saved, rs) \<Rightarrow>
          Inr (ok_response 200 ''File record updated successfully'' (Some saved),
               w\<lparr>rows := rs\<rparr>))"

definition update_try :: "env \<Rightarrow> nat \<Rightarrow> body \<Rightarrow> upload option \<Rightarrow> world
    \<Rightarrow> (exn \<times> world) + (response \<times> world)" where
  "update_try e i b file w =
     (case findById (rows w) i of
        None \<Rightarrow>
          (case file of
             Some f \<Rightarrow>
               (case unlinkSync (files w) (up_path f) of
                  Inl err \<Rightarrow> Inl (err, w)
                | Inr fs' \<Rightarrow> Inr (fail_response 404 ''File record not found'', w\<lparr>files := fs'\<rparr>))
           | None \<Rightarrow> Inr (fail_response 404 ''File record not found'', w))
      | Some record0 \<Rightarrow>
          (case update_fields e b record0 of
             (r, cast_ok) \<Rightarrow>
               (case file of
                  None \<Rightarrow> update_save e cast_ok r w
                | Some f \<Rightarrow>
                    if filePath r \<noteq> [] \<and> existsSync (files w) (filePath r)
                    then (case unlinkSync (files w) (filePath r) of
                            Inl err \<Rightarrow> Inl (err, w)
                          | Inr fs' \<Rightarrow>
                              update_save e cast_ok (update_file_info f r) (w\<lparr>files := fs'\<rparr>))
                    else update_save e cast_ok (update_file_info f r) w)))"

definition updateFileRecord :: "env \<Rightarrow> nat \<Rightarrow> body \<Rightarrow> upload option \<Rightarrow> world
    \<Rightarrow> response option \<times> world" where
  "updateFileRecord e i b file w =
     (case update_try e i b file w of
        Inr (res, w') \<Rightarrow> (Some res, w')
      | Inl (err, w') \<Rightarrow> cleanup_catch ''Error updating file record'' file w')"

definition delete_row :: "env \<Rightarrow> nat \<Rightarrow> world \<Rightarrow> (exn \<times> world) + (response \<times> world)" where
  "delete_row e i w =
     (case findByIdAndDelete e i (rows w) of
        None \<Rightarrow> Inl (DbError, w)
      | Some rs \<Rightarrow>
          Inr (ok_response 200 ''File record deleted successfully'' None, w\<lparr>rows := rs\<rparr>))"

definition delete_try :: "env \<Rightarrow> nat \<Rightarrow> world \<Rightarrow> (exn \<times> world) + (response \<times> world)" where
  "delete_try e i w =
     (case findById (rows w) i of
        None \<Rightarrow> Inr (fail_response 404 ''File record not found'', w)
      | Some r \<Rightarrow>
          if filePath r \<noteq> [] \<and> existsSync (files w) (filePath r)
          then (case unlinkSync (files w) (filePath r) of
                  Inl err \<Rightarrow> Inl (err, w)
                | Inr fs' \<Rightarrow> delete_row e i (w\<lparr>files := fs'\<rparr>))
          else delete_row e i w)"

definition deleteFileRecord :: "env \<Rightarrow> nat \<Rightarrow> world \<Rightarrow> response option \<times> world" where
  "deleteFileRecord e i w =
     (case delete_try e i w of
        Inr (res, w') \<Rightarrow> (Some res, w')
      | Inl (err, w') \<Rightarrow> (Some (fail_response 500 ''Error deleting file record''), w'))"

subsection \<open>The routes with the upload middleware in front\<close>

text \<open>
  \<^verbatim>\<open>upload.single('file')\<close> ends in one of three ways: the request carried no file,
  the file was written under the name in \<^verbatim>\<open>req.file\<close>, or the upload was refused
  (type filter, size limit, write error) and nothing stays on disk. In the last case
  \<^verbatim>\<open>handleMulterError\<close> answers 400 and the controller does not run.
\<close>

datatype multer_outcome = NoFile | Stored upload | Refused string

definition uploaded_file :: "multer_outcome \<Rightarrow> upload option" where
  "uploaded_file m = (case m of Stored f \<Rightarrow> Some f | _ \<Rightarrow> None)"

definition upload_single :: "multer_outcome \<Rightarrow> world \<Rightarrow> world" where
  "upload_single m w =
     (case m of
        Stored f \<Rightarrow> w\<lparr>files := (files w)(up_path f \<mapsto> Removable)\<rparr>
      | _ \<Rightarrow> w)"

definition post_files :: "env \<Rightarrow> body \<Rightarrow> multer_outcome \<Rightarrow> nat \<Rightarrow> world
    \<Rightarrow> response option \<times> world" where
  "post_files e b m uid w =
     (case m of
        Refused msg \<Rightarrow> (Some (fail_response 400 msg), w)
      | _ \<Rightarrow> createFileRecord e b (uploaded_file m) uid (upload_single m w))"

definition put_files :: "env \<Rightarrow> nat \<Rightarrow> body \<Rightarrow> multer_outcome \<Rightarrow> world
    \<Rightarrow> response option \<times> world" where
  "put_files e i b m w =
     (case m of
        Refused msg \<Rightarrow> (Some (fail_response 400 msg), w)
      | _ \<Rightarrow> updateFileRecord e i b (uploaded_file m) (upload_single m w))"

section \<open>The file controller: list and export\<close>

record list_params =
  search :: "string option"
  p_fileType :: "string option"
  startDate :: "string option"
  endDate :: "string option"
  sortBy :: "string option"
  sortOrder :: "string option"
  page :: "string option"
  limit :: "string option"

text \<open>The query object: one optional condition per field it can constrain.\<close>

record date_cond =
  gte :: "jsdate option"
  lte :: "jsdate option"

record query =
  q_description :: "string option"
  q_fileType :: "string option"
  q_uploadDateTime :: "date_cond option"

text \<open>Lines 30 to 55 of \<^verbatim>\<open>getFileRecords\<close>.\<close>

definition list_query :: "env \<Rightarrow> list_params \<Rightarrow> query" where
  "list_query e p =
     (let q0 = \<lparr>q_description = None, q_fileType = None, q_uploadDateTime = None\<rparr>;
          q1 = (if truthy (search p) then q0\<lparr>q_description := search p\<rparr> else q0);
          q2 = (if truthy (p_fileType p) \<and> p_fileType p \<noteq> Some ''All''
                then q1\<lparr>q_fileType := p_fileType p\<rparr> else q1)
      in if truthy (startDate p) \<or> truthy (endDate p)
         then (let c0 = \<lparr>gte = None, lte = None\<rparr>;
                   c1 = (case startDate p of
                           None \<Rightarrow> c0
                         | Some s \<Rightarrow> if s \<noteq> [] then c0\<lparr>gte := Some (new_Date e s)\<rparr> else c0);
                   c2 = (case endDate p of
                           None \<Rightarrow> c1
                         | Some s \<Rightarrow>
                             if s \<noteq> []
                             then c1\<lparr>lte := Some (setHours_end e (new_Date e s))\<rparr> else c1)
               in q2\<lparr>q_uploadDateTime := Some c2\<rparr>)
         else q2)"

text \<open>Lines 391 to 412 of \<^verbatim>\<open>exportToExcel\<close>.\<close>

definition export_query :: "env \<Rightarrow> list_params \<Rightarrow> query" where
  "export_query e p =
     (let q0 = \<lparr>q_description = None, q_fileType = None, q_uploadDateTime = None\<rparr>;
          q1 = (if truthy (search p) then q0\<lparr>q_description := search p\<rparr> else q0);
          q2 = (if truthy (p_fileType p) \<and> p_fileType p \<noteq> Some ''All''
                then q1\<lparr>q_fileType := p_fileType p\<rparr> else q1)
      in if truthy (startDate p) \<or> truthy (endDate p)
         then (let c0 = \<lparr>gte = None, lte = None\<rparr>;
                   c1 = (case startDate p of
                           None \<Rightarrow> c0
                         | Some s \<Rightarrow> if s \<noteq> [] then c0\<lparr>gte := Some (new_Date e s)\<rparr> else c0);
                   c2 = (case endDate p of
                           None \<Rightarrow> c1
                         | Some s \<Rightarrow>
                             if s \<noteq> []
                             then (let end' = new_Date e s
                                   in c1\<lparr>lte := Some (setHours_end e end')\<rparr>)
                             else c1)
               in q2\<lparr>q_uploadDateTime := Some c2\<rparr>)
         else q2)"

definition validSortFields :: "string list" where
  "validSortFields = [''uploadDateTime'', ''description'', ''fileType'', ''fileDate'']"

definition sort_direction :: "string option \<Rightarrow> int" where
  "sort_direction order =
     (if (case order of None \<Rightarrow> ''desc'' | Some s \<Rightarrow> s) = ''asc'' then 1 else - 1)"

text \<open>Lines 57 to 61: the sort object of \<^verbatim>\<open>getFileRecords\<close>.\<close>

definition list_sortOptions :: "list_params \<Rightarrow> string \<times> int" where
  "list_sortOptions p =
     (let sortBy' = (case sortBy p of None \<Rightarrow> ''uploadDateTime'' | Some s \<Rightarrow> s);
          sortField = (if sortBy' \<in> set validSortFields then sortBy' else ''uploadDateTime'')
      in (sortField, sort_direction (sortOrder p)))"

text \<open>Lines 414 to 416: the sort object of \<^verbatim>\<open>exportToExcel\<close>.\<close>

definition export_sortOptions :: "list_params \<Rightarrow> string \<times> int" where
  "export_sortOptions p =
     (let sortBy' = (case sortBy p of None \<Rightarrow> ''uploadDateTime'' | Some s \<Rightarrow> s)
      in (sortBy', sort_direction (sortOrder p)))"

text \<open>Lines 63 to 66.\<close>

definition pageNum :: "list_params \<Rightarrow> int" where
  "pageNum p = or_default (parseInt (case page p of None \<Rightarrow> ''1'' | Some s \<Rightarrow> s)) 1"

definition limitNum :: "list_params \<Rightarrow> int" where
  "limitNum p = or_default (parseInt (case limit p of None \<Rightarrow> ''10'' | Some s \<Rightarrow> s)) 10"

definition skip :: "list_params \<Rightarrow> int" where
  "skip p = (pageNum p - 1) * limitNum p"

subsection \<open>What the store answers to a query\<close>

definition date_matches :: "date_cond \<Rightarrow> time \<Rightarrow> bool" where
  "date_matches c t =
     ((case gte c of None \<Rightarrow> True | Some InvalidDate \<Rightarrow> False | Some (Date g) \<Rightarrow> g \<le> t)
      \<and> (case lte c of None \<Rightarrow> True | Some InvalidDate \<Rightarrow> False | Some (Date l) \<Rightarrow> t \<le> l))"

text \<open>The condition a query puts on the upload time.\<close>

definition date_filter :: "query \<Rightarrow> time \<Rightarrow> bool" where
  "date_filter q t = (case q_uploadDateTime q of None \<Rightarrow> True | Some c \<Rightarrow> date_matches c t)"

definition matches :: "env \<Rightarrow> query \<Rightarrow> FileRecord \<Rightarrow> bool" where
  "matches e q r =
     ((case q_description q of
         None \<Rightarrow> True
       | Some pat \<Rightarrow> (case regex_i e pat of None \<Rightarrow> False | Some rx \<Rightarrow> rx (description r)))
      \<and> (case q_fileType q of None \<Rightarrow> True | Some t \<Rightarrow> fileType r = t)
      \<and> date_filter q (uploadDateTime r))"

text \<open>
  A query is refused, and the call throws, when its pattern does not compile or when
  one of its date bounds is an invalid date.
\<close>

definition query_accepted :: "env \<Rightarrow> query \<Rightarrow> bool" where
  "query_accepted e q =
     ((case q_description q of None \<Rightarrow> True | Some pat \<Rightarrow> regex_i e pat \<noteq> None)
      \<and> (case q_uploadDateTime q of
           None \<Rightarrow> True
         | Some c \<Rightarrow> gte c \<noteq> Some InvalidDate \<and> lte c \<noteq> Some InvalidDate))"

definition find_sorted :: "env \<Rightarrow> query \<Rightarrow> string \<times> int \<Rightarrow> FileRecord list
    \<Rightarrow> FileRecord list option" where
  "find_sorted e q so rs =
     (if query_accepted e q then Some (mongo_sort e so (filter (matches e q) rs)) else None)"

definition countDocuments :: "env \<Rightarrow> query \<Rightarrow> FileRecord list \<Rightarrow> nat option" where
  "countDocuments e q rs =
     (if query_accepted e q then Some (length (filter (matches e q) rs)) else None)"

text \<open>
  \<^verbatim>\<open>.skip(n).limit(m)\<close> on the sorted result: a negative skip is refused by the
  server, a negative limit counts as its absolute value and a limit of 0 as no limit.
\<close>

definition skip_limit :: "int \<Rightarrow> int \<Rightarrow> 'a list \<Rightarrow> 'a list option" where
  "skip_limit n m xs =
     (if n < 0 then None
      else if m = 0 then Some (drop (nat n) xs)
      else Some (take (nat \<bar>m\<bar>) (drop (nat n) xs)))"

record pagination =
  currentPage :: int
  totalPages :: int
  totalRecords :: nat
  recordsPerPage :: int
  hasNextPage :: bool
  hasPrevPage :: bool

record list_data =
  records :: "FileRecord list"
  page_info :: pagination
  fileTypes :: "string list"

text \<open>Lines 78 to 92, with \<^verbatim>\<open>Math.ceil(totalCount / limitNum)\<close> on exact numbers.\<close>

definition make_pagination :: "int \<Rightarrow> int \<Rightarrow> nat \<Rightarrow> pagination" where
  "make_pagination pageNum' limitNum' totalCount =
     (let totalPages' = \<lceil>real totalCount / real_of_int limitNum'\<rceil>
      in \<lparr>currentPage = pageNum',
          totalPages = totalPages',
          totalRecords = totalCount,
          recordsPerPage = limitNum',
          hasNextPage = (pageNum' < totalPages'),
          hasPrevPage = (1 < pageNum')\<rparr>)"

text \<open>\<^verbatim>\<open>getFileRecords\<close>: \<open>Inr\<close> is the body of the 200 answer, \<open>Inl\<close> the 500 answer.\<close>

definition getFileRecords :: "env \<Rightarrow> list_params \<Rightarrow> world \<Rightarrow> response + list_data" where
  "getFileRecords e p w =
     (let query' = list_query e p;
          sortOptions = list_sortOptions p
      in case find_sorted e query' sortOptions (rows w) of
           None \<Rightarrow> Inl (fail_response 500 ''Error fetching file records'')
         | Some sorted' \<Rightarrow>
             (case skip_limit (skip p) (limitNum p) sorted' of
                None \<Rightarrow> Inl (fail_response 500 ''Error fetching file records'')
              | Some records' \<Rightarrow>
                  (case countDocuments e query' (rows w) of
                     None \<Rightarrow> Inl (fail_response 500 ''Error fetching file records'')
                   | Some totalCount \<Rightarrow>
                       Inr \<lparr>records = records',
                            page_info = make_pagination (pageNum p) (limitNum p) totalCount,
                            fileTypes = FILE_TYPE_CHOICES\<rparr>)))"

subsection \<open>Export\<close>

record sheet_row =
  row_id :: nat
  row_description :: string
  row_fileDate :: string
  row_letterRef :: string
  row_fileName :: string
  row_fileType :: string
  row_uploadDateTime :: string

text \<open>The placeholder of an absent value: an em dash, three bytes in UTF-8.\<close>

definition dash :: string where
  "dash = [CHR 0xE2, CHR 0x80, CHR 0x94]"

text \<open>\<^verbatim>\<open>s.replace(a, b)\<close> on single characters: the first occurrence only.\<close>

fun replace_first :: "char \<Rightarrow> char \<Rightarrow> string \<Rightarrow> string" where
  "replace_first a b [] = []"
| "replace_first a b (c # cs) = (if c = a then b # cs else c # replace_first a b cs)"

definition make_row :: "env \<Rightarrow> nat \<Rightarrow> FileRecord \<Rightarrow> sheet_row" where
  "make_row e index r =
     \<lparr>row_id = index + 1,
      row_description = description r,
      row_fileDate = (case fileDate r of
                        Some t \<Rightarrow> takeWhile (\<lambda>c. c \<noteq> CHR ''T'') (toISOString e t)
                      | None \<Rightarrow> dash),
      row_letterRef = (case letterReferenceNumber r of
                         None \<Rightarrow> dash
                       | Some s \<Rightarrow> if s = [] then dash else s),
      row_fileName = originalName r,
      row_fileType = fileType r,
      row_uploadDateTime = take 19 (replace_first CHR ''T'' CHR '' '' (toISOString e (uploadDateTime r)))\<rparr>"

text \<open>The \<^verbatim>\<open>records.forEach\<close> of lines 449 to 459, from index \<open>index\<close> on.\<close>

fun add_rows :: "env \<Rightarrow> nat \<Rightarrow> FileRecord list \<Rightarrow> sheet_row list \<Rightarrow> sheet_row list" where
  "add_rows e index [] sheet = sheet"
| "add_rows e index (r # rest) sheet = add_rows e (Suc index) rest (sheet @ [make_row e index r])"

datatype entry_source = FromBuffer "sheet_row list" | FromFile string

type_synonym archive = "(string \<times> entry_source) list"

definition uniqueFilename :: "nat \<Rightarrow> FileRecord \<Rightarrow> string" where
  "uniqueFilename i r =
     (let ext = extname (originalName r);
          nameWithoutExt = basename (originalName r) ext
      in padStart 3 CHR ''0'' (String_of (i + 1)) @ ''_'' @ nameWithoutExt @ ext)"

text \<open>The \<^verbatim>\<open>for\<close> loop of lines 489 to 497, from index \<open>i\<close> on.\<close>

fun add_files :: "fs \<Rightarrow> nat \<Rightarrow> FileRecord list \<Rightarrow> archive \<Rightarrow> archive" where
  "add_files f i [] a = a"
| "add_files f i (r # rest) a =
     add_files f (Suc i) rest
       (if filePath r \<noteq> [] \<and> existsSync f (filePath r)
        then a @ [(''files/'' @ uniqueFilename i r, FromFile (filePath r))]
        else a)"

text \<open>
  \<^verbatim>\<open>exportToExcel\<close>: \<open>Inr\<close> is the worksheet's data rows and the archive sent,
  \<open>Inl\<close> the 500 answer.
\<close>

definition exportToExcel :: "env \<Rightarrow> list_params \<Rightarrow> world
    \<Rightarrow> response + (sheet_row list \<times> archive)" where
  "exportToExcel e p w =
     (case find_sorted e (export_query e p) (export_sortOptions p) (rows w) of
        None \<Rightarrow> Inl (fail_response 500 ''Error exporting records'')
      | Some records' \<Rightarrow>
          (let sheet = add_rows e 0 records' []
           in Inr (sheet, add_files (files w) 0 records' [(''records.xlsx'', FromBuffer sheet)])))"

section \<open>The specification's own words, and example data\<close>

text \<open>The extension table as the specification gives it, with its default.\<close>

definition spec_extension_table :: "(string \<times> string) list" where
  "spec_extension_table =
     [(''.pdf'', ''PDF''), (''.doc'', ''DOCX''), (''.docx'', ''DOCX''),
      (''.xls'', ''XLSX''), (''.xlsx'', ''XLSX''),
      (''.jpg'', ''Image''), (''.jpeg'', ''Image''), (''.png'', ''Image''),
      (''.gif'', ''Image''), (''.bmp'', ''Image''), (''.webp'', ''Image'')]"

definition spec_classify :: "string \<Rightarrow> string" where
  "spec_classify name =
     (case map_of spec_extension_table (toLowerCase (extname name)) of
        Some t \<Rightarrow> t
      | None \<Rightarrow> ''Other'')"


text \<open>
  The ordering of the example environment: the store compares the values of the sort
  field, a missing or null value before numbers, numbers before strings, strings
  before dates, strings byte by byte, and keeps the stored order of rows that compare
  equal; a direction of \<open>-1\<close> reverses the comparison.
\<close>

datatype bson = BNull | BNum int | BStr string | BDate int

fun str_le :: "string \<Rightarrow> string \<Rightarrow> bool" where
  "str_le [] ys = True"
| "str_le (x # xs) [] = False"
| "str_le (x # xs) (y # ys) = (if x = y then str_le xs ys else (of_char x :: nat) < of_char y)"

fun bson_rank :: "bson \<Rightarrow> nat" where
  "bson_rank BNull = 0"
| "bson_rank (BNum n) = 1"
| "bson_rank (BStr s) = 2"
| "bson_rank (BDate t) = 3"

fun bson_le :: "bson \<Rightarrow> bson \<Rightarrow> bool" where
  "bson_le (BNum a) (BNum b) = (a \<le> b)"
| "bson_le (BStr a) (BStr b) = str_le a b"
| "bson_le (BDate a) (BDate b) = (a \<le> b)"
| "bson_le a b = (bson_rank a \<le> bson_rank b)"

definition field_value :: "string \<Rightarrow> FileRecord \<Rightarrow> bson" where
  "field_value name r =
     (if name = ''uploadDateTime'' then BDate (uploadDateTime r)
      else if name = ''description'' then BStr (description r)
      else if name = ''fileType'' then BStr (fileType r)
      else if name = ''fileDate'' then (case fileDate r of None \<Rightarrow> BNull | Some t \<Rightarrow> BDate t)
      else if name = ''fileName'' then BStr (fileName r)
      else if name = ''originalName'' then BStr (originalName r)
      else if name = ''filePath'' then BStr (filePath r)
      else if name = ''mimeType'' then BStr (mimeType r)
      else if name = ''fileSize'' then BNum (int (fileSize r))
      else if name = ''letterReferenceNumber''
        then (case letterReferenceNumber r of None \<Rightarrow> BNull | Some s \<Rightarrow> BStr s)
      else BNull)"

fun insert_sorted :: "('a \<Rightarrow> 'a \<Rightarrow> bool) \<Rightarrow> 'a \<Rightarrow> 'a list \<Rightarrow> 'a list" where
  "insert_sorted le x [] = [x]"
| "insert_sorted le x (y # ys) = (if le x y then x # y # ys else y # insert_sorted le x ys)"

definition sort_order :: "string \<times> int \<Rightarrow> FileRecord \<Rightarrow> FileRecord \<Rightarrow> bool" where
  "sort_order so a b =
     (if 0 < snd so then bson_le (field_value (fst so) a) (field_value (fst so) b)
      else bson_le (field_value (fst so) b) (field_value (fst so) a))"

definition sort_records :: "string \<times> int \<Rightarrow> FileRecord list \<Rightarrow> FileRecord list" where
  "sort_records so rs = foldr (insert_sorted (sort_order so)) rs []"

text \<open>
  \<^verbatim>\<open>toISOString\<close> of the example environment, for the years 0000 to 9999: the
  calendar date of the UTC day and the time of day, as
  \<^verbatim>\<open>YYYY-MM-DDTHH:MM:SS.mmmZ\<close>.
\<close>

definition civil_from_days :: "int \<Rightarrow> int \<times> int \<times> int" where
  "civil_from_days z0 =
     (let z = z0 + 719468;
          era = z div 146097;
          doe = z - era * 146097;
          yoe = (doe - doe div 1460 + doe div 36524 - doe div 146096) div 365;
          doy = doe - (365 * yoe + yoe div 4 - yoe div 100);
          mp = (5 * doy + 2) div 153;
          d = doy - (153 * mp + 2) div 5 + 1;
          m = (if mp < 10 then mp + 3 else mp - 9);
          y = yoe + era * 400
      in (if m \<le> 2 then y + 1 else y, m, d))"

definition pad_int :: "nat \<Rightarrow> int \<Rightarrow> string" where
  "pad_int n x = padStart n CHR ''0'' (String_of (nat x))"

definition iso_string :: "time \<Rightarrow> string" where
  "iso_string t =
     (case civil_from_days (t div msPerDay) of
        (y, m, d) \<Rightarrow>
          (let ms = t mod msPerDay
           in pad_int 4 y @ ''-'' @ pad_int 2 m @ ''-'' @ pad_int 2 d @ ''T''
              @ pad_int 2 (ms div 3600000) @ '':'' @ pad_int 2 (ms mod 3600000 div 60000) @ '':''
              @ pad_int 2 (ms mod 60000 div 1000) @ ''.'' @ pad_int 3 (ms mod 1000) @ ''Z''))"

text \<open>
  An example environment: patterns are literal text found anywhere in the subject
  without regard to case, rows are ordered as above, instants are printed as above,
  the server's local time is UTC.
\<close>

definition contains_i :: "string \<Rightarrow> string \<Rightarrow> bool" where
  "contains_i pat s =
     list_ex (\<lambda>i. take (length pat) (drop i (toLowerCase s)) = toLowerCase pat)
       [0..<Suc (length s)]"

definition example_env :: env where
  "example_env =
     \<lparr>regex_i = (\<lambda>pat. Some (contains_i pat)),
      mongo_sort = sort_records,
      castDate = utc_midnight,
      date_parse = (\<lambda>s. None),
      toISOString = iso_string,
      localTZA = 0,
      now = 1705312800000,
      fresh_id = 2,
      db_write_ok = True\<rparr>"

definition example_record :: FileRecord where
  "example_record =
     \<lparr>rec_id = 1,
      description = ''Annual report'',
      fileName = ''1705312800000_report_u1.pdf'',
      originalName = ''report.pdf'',
      filePath = ''uploads/1705312800000_report_u1.pdf'',
      fileType = ''PDF'',
      fileSize = 1024,
      mimeType = ''application/pdf'',
      fileDate = Some 1704067200000,
      letterReferenceNumber = Some ''REF-1'',
      uploadedBy = 7,
      uploadDateTime = 1705312800000\<rparr>"

definition example_world :: world where
  "example_world =
     \<lparr>files = [''uploads/1705312800000_report_u1.pdf'' \<mapsto> Removable],
      rows = [example_record]\<rparr>"

definition example_upload :: upload where
  "example_upload =
     \<lparr>up_filename = ''1705399200000_minutes_u2.docx'',
      up_originalname = ''minutes.docx'',
      up_path = ''uploads/1705399200000_minutes_u2.docx'',
      up_size = 2048,
      up_mimetype = ''application/msword''\<rparr>"

definition example_body :: body where
  "example_body =
     \<lparr>b_description = Some ''Minutes'', b_fileDate = None, b_letterReferenceNumber = None\<rparr>"


text \<open>The example record under another stored name, not yet classified.\<close>

definition named :: "string \<Rightarrow> FileRecord" where
  "named n = example_record\<lparr>fileName := n, fileType := ''Other''\<rparr>"

text \<open>A request body that changes metadata only.\<close>

definition metadata_body :: body where
  "metadata_body =
     \<lparr>b_description = Some ''Annual report 2023'', b_fileDate = Some ''2024-01-15'',
      b_letterReferenceNumber = None\<rparr>"

definition bad_date_body :: body where
  "bad_date_body =
     \<lparr>b_description = None, b_fileDate = Some ''not-a-date'', b_letterReferenceNumber = None\<rparr>"

definition by_size_params :: list_params where
  "by_size_params =
     \<lparr>search = None, p_fileType = None, startDate = None, endDate = None,
      sortBy = Some ''fileSize'', sortOrder = Some ''asc'', page = None, limit = None\<rparr>"

definition locked_world :: world where
  "locked_world =
     \<lparr>files = [''uploads/1705312800000_report_u1.pdf'' \<mapsto> Locked],
      rows = [example_record]\<rparr>"

definition blobless_world :: world where
  "blobless_world = \<lparr>files = Map.empty, rows = [example_record]\<rparr>"

definition blank_body :: body where
  "blank_body =
     \<lparr>b_description = Some ''   '', b_fileDate = None, b_letterReferenceNumber = Some ''''\<rparr>"

definition clearing_body :: body where
  "clearing_body =
     \<lparr>b_description = Some ''  Audit 2023 '', b_fileDate = Some '''',
      b_letterReferenceNumber = Some ''''\<rparr>"

text \<open>
  The date range in the specification's words: an inclusive lower bound at the start
  of the day of \<open>startDate\<close>, an inclusive upper bound at 23:59:59.999 of the day of
  \<open>endDate\<close>, both days taken in UTC.
\<close>

definition spec_in_range :: "string option \<Rightarrow> string option \<Rightarrow> time \<Rightarrow> bool" where
  "spec_in_range sd ed t =
     ((case sd of
         None \<Rightarrow> True
       | Some s \<Rightarrow> (case utc_midnight s of None \<Rightarrow> True | Some a \<Rightarrow> a \<le> t))
      \<and> (case ed of
           None \<Rightarrow> True
         | Some s \<Rightarrow> (case utc_midnight s of None \<Rightarrow> True | Some b \<Rightarrow> t \<le> b + 86399999)))"

text \<open>A date parameter that is absent, empty, or a date-only string.\<close>

definition date_only_or_absent :: "string option \<Rightarrow> bool" where
  "date_only_or_absent v =
     (case v of None \<Rightarrow> True | Some s \<Rightarrow> (if s = [] then True else utc_midnight s \<noteq> None))"

definition no_params :: list_params where
  "no_params =
     \<lparr>search = None, p_fileType = None, startDate = None, endDate = None,
      sortBy = None, sortOrder = None, page = None, limit = None\<rparr>"

definition jan15_params :: list_params where
  "jan15_params = no_params\<lparr>startDate := Some ''2024-01-15'', endDate := Some ''2024-01-15''\<rparr>"

definition utc_minus5_env :: env where
  "utc_minus5_env = example_env\<lparr>localTZA := - 18000000\<rparr>"

definition negative_params :: list_params where
  "negative_params = no_params\<lparr>page := Some ''-3'', limit := Some ''-5''\<rparr>"

definition second_record :: FileRecord where
  "second_record =
     example_record\<lparr>rec_id := 2, description := ''Minutes'',
       fileName := ''1705399200000_minutes_u2.docx'', originalName := ''minutes.docx'',
       filePath := ''uploads/1705399200000_minutes_u2.docx'', fileType := ''DOCX'',
       uploadDateTime := 1705399200000\<rparr>"

definition two_world :: world where
  "two_world =
     \<lparr>files = [''uploads/1705312800000_report_u1.pdf'' \<mapsto> Removable],
      rows = [example_record, second_record]\<rparr>"

definition page2_params :: list_params where
  "page2_params = no_params\<lparr>page := Some ''2'', limit := Some ''1''\<rparr>"

text \<open>A store of a thousand records, each with its blob on disk.\<close>

definition numbered_record :: "nat \<Rightarrow> FileRecord" where
  "numbered_record i =
     example_record\<lparr>rec_id := i,
       fileName := String_of i @ ''_report_u.pdf'',
       filePath := ''uploads/'' @ String_of i @ ''_report_u.pdf'',
       uploadDateTime := 1705312800000 + int i\<rparr>"

definition thousand_world :: world where
  "thousand_world =
     \<lparr>files = (\<lambda>p. if p \<in> set (map (\<lambda>i. filePath (numbered_record i)) [1..<1001])
                    then Some Removable else None),
      rows = map numbered_record [1..<1001]\<rparr>"

section \<open>Helper lemmas\<close>

lemma unlinkSync_Removable: "f p = Some Removable \<Longrightarrow> unlinkSync f p = Inr (f(p := None))"
  by (simp add: unlinkSync_def)

lemma cleanup_catch_Removable:
  "files w (up_path f) = Some Removable \<Longrightarrow>
   cleanup_catch msg (Some f) w
     = (Some (fail_response 500 msg), w\<lparr>files := (files w)(up_path f := None)\<rparr>)"
  by (simp add: cleanup_catch_def existsSync_def unlinkSync_Removable)




section \<open>Create rolls its side effects back\<close>



section \<open>File-type classification\<close>

lemma switch_ext_table:
  "switch_ext x = (case map_of spec_extension_table x of Some t \<Rightarrow> t | None \<Rightarrow> ''Other'')"
  by (simp add: switch_ext_def spec_extension_table_def)

lemma switch_ext_choices: "switch_ext x \<in> set FILE_TYPE_CHOICES"
  by (simp add: switch_ext_def FILE_TYPE_CHOICES_def)

lemma toLowerChar_slash: "(toLowerChar c = CHR ''/'') = (c = CHR ''/'')"
  by (auto simp: toLowerChar_def split: option.splits if_splits)

lemma toLowerChar_dot: "(toLowerChar c = CHR ''.'') = (c = CHR ''.'')"
  by (auto simp: toLowerChar_def split: option.splits if_splits)

lemma toLowerChar_dot': "(CHR ''.'' = toLowerChar c) = (c = CHR ''.'')"
  using toLowerChar_dot [of c] by auto

lemma last_part_lower: "last_part (toLowerCase p) = toLowerCase (last_part p)"
  by (simp add: last_part_def toLowerCase_def rev_map takeWhile_map dropWhile_map comp_def
      toLowerChar_slash)

lemma toLowerCase_eq_dotdot: "(toLowerCase b = ''..'') = (b = ''..'')"
  by (auto simp: toLowerCase_def toLowerChar_dot)

lemma dot_in_lower: "(CHR ''.'' \<in> set (toLowerCase b)) = (CHR ''.'' \<in> set b)"
  by (auto simp: toLowerCase_def toLowerChar_dot' image_iff)

lemma extname_lower: "extname (toLowerCase p) = toLowerCase (extname p)"
  unfolding extname_def Let_def last_part_lower dot_in_lower toLowerCase_eq_dotdot
  by (simp add: toLowerCase_def rev_map takeWhile_map comp_def toLowerChar_dot toLowerChar_dot')

lemma pre_save_spec:
  "fileName r \<noteq> [] \<Longrightarrow> fileType (pre_save r) = spec_classify (fileName r)"
  by (simp add: pre_save_def spec_classify_def switch_ext_table)

lemma spec_classify_case:
  "toLowerCase a = toLowerCase b \<Longrightarrow> spec_classify a = spec_classify b"
  by (metis spec_classify_def extname_lower)

lemma spec_classify_choices: "spec_classify n \<in> set FILE_TYPE_CHOICES"
  using switch_ext_choices [of "toLowerCase (extname n)"]
  by (simp add: spec_classify_def switch_ext_table)

text \<open>
  Claim C8. For a record with a stored file name, the pre-save middleware sets the file
  type to the entry of the specification's table for the lower-cased extension of that
  name (\<open>Other\<close> when the table has none). The result is one of the five types, does
  not depend on the file type the record carried before, and is the same for two
  stored names that differ only in letter case.
\<close>

theorem fileType_from_extension:
  assumes "fileName r \<noteq> []"
  shows "fileType (pre_save r) = spec_classify (fileName r)
         \<and> fileType (pre_save r) \<in> set FILE_TYPE_CHOICES
         \<and> fileType (pre_save (r\<lparr>fileType := supplied\<rparr>)) = fileType (pre_save r)
         \<and> (\<forall>r'. fileName r' \<noteq> [] \<and> toLowerCase (fileName r') = toLowerCase (fileName r)
               \<longrightarrow> fileType (pre_save r') = fileType (pre_save r))"
proof -
  have a: "fileType (pre_save r) = spec_classify (fileName r)"
    using assms by (rule pre_save_spec)
  have b: "fileType (pre_save r) \<in> set FILE_TYPE_CHOICES"
    unfolding a by (rule spec_classify_choices)
  have c: "fileType (pre_save (r\<lparr>fileType := supplied\<rparr>)) = fileType (pre_save r)"
    using assms by (simp add: pre_save_def)
  have d: "fileType (pre_save r') = fileType (pre_save r)"
    if "fileName r' \<noteq> []" "toLowerCase (fileName r') = toLowerCase (fileName r)" for r'
    using that a pre_save_spec [of r'] spec_classify_case by metis
  from a b c d show ?thesis by blast
qed

lemma classify_examples:
  "spec_classify ''report.PDF'' = ''PDF''" "spec_classify ''report.pdf'' = ''PDF''"
  "spec_classify ''report.Pdf'' = ''PDF''" "spec_classify ''notes.txt'' = ''Other''"
  by (simp_all add: spec_classify_def spec_extension_table_def extname_def last_part_def
      toLowerCase_def toLowerChar_def)

lemma fileName_named: "fileName (named n) = n" "fileName ((named n)\<lparr>fileType := t\<rparr>) = n"
  by (simp_all add: named_def)

theorem fileType_from_extension_witness:
  "fileType (pre_save (named ''report.PDF'')) = ''PDF''
   \<and> fileType (pre_save (named ''report.pdf'')) = ''PDF''
   \<and> fileType (pre_save (named ''report.Pdf'')) = ''PDF''
   \<and> fileType (pre_save (named ''notes.txt'')) = ''Other''
   \<and> fileType (pre_save ((named ''report.PDF'')\<lparr>fileType := ''Image''\<rparr>)) = ''PDF''"
proof -
  have 1: "fileType (pre_save (named ''report.PDF'')) = ''PDF''"
    using fileType_from_extension [of "named ''report.PDF''", THEN conjunct1]
    by (simp add: fileName_named classify_examples)
  have 2: "fileType (pre_save (named ''report.pdf'')) = ''PDF''"
    using fileType_from_extension [of "named ''report.pdf''", THEN conjunct1]
    by (simp add: fileName_named classify_examples)
  have 3: "fileType (pre_save (named ''report.Pdf'')) = ''PDF''"
    using fileType_from_extension [of "named ''report.Pdf''", THEN conjunct1]
    by (simp add: fileName_named classify_examples)
  have 4: "fileType (pre_save (named ''notes.txt'')) = ''Other''"
    using fileType_from_extension [of "named ''notes.txt''", THEN conjunct1]
    by (simp add: fileName_named classify_examples)
  have 5: "fileType (pre_save ((named ''report.PDF'')\<lparr>fileType := ''Image''\<rparr>))
            = fileType (pre_save (named ''report.PDF''))"
    using fileType_from_extension [of "named ''report.PDF''" "''Image''",
        THEN conjunct2, THEN conjunct2, THEN conjunct1]
    by (simp add: fileName_named)
  from 1 2 3 4 5 show ?thesis by simp
qed

section \<open>The file type follows the file name on every save\<close>

lemma validate_fileName: "validate d \<Longrightarrow> fileName d \<noteq> []"
  by (simp add: validate_def)

lemma pre_save_keeps:
  "rec_id (pre_save d) = rec_id d" "fileName (pre_save d) = fileName d"
  "description (pre_save d) = description d" "originalName (pre_save d) = originalName d"
  "filePath (pre_save d) = filePath d" "fileSize (pre_save d) = fileSize d"
  "mimeType (pre_save d) = mimeType d" "fileDate (pre_save d) = fileDate d"
  "letterReferenceNumber (pre_save d) = letterReferenceNumber d"
  "uploadedBy (pre_save d) = uploadedBy d" "uploadDateTime (pre_save d) = uploadDateTime d"
  by (simp_all add: pre_save_def Let_def)

lemma saved_classified:
  "validate d \<Longrightarrow> fileType (pre_save d) = spec_classify (fileName (pre_save d))"
  by (simp add: pre_save_keeps pre_save_spec validate_fileName)

lemma findById_append_new:
  "rec_id s \<notin> set (map rec_id rs) \<Longrightarrow> findById (rs @ [s]) (rec_id s) = Some s"
  by (induction rs) (auto simp: findById_def)

lemma findById_replaced:
  "findById rs i = Some r0 \<Longrightarrow> rec_id s = i \<Longrightarrow>
   findById (map (\<lambda>r. if rec_id r = i then s else r) rs) i = Some s"
  by (induction rs) (auto simp: findById_def split: if_splits)

lemma findById_rec_id: "findById rs i = Some r \<Longrightarrow> rec_id r = i"
  by (induction rs) (auto simp: findById_def split: if_splits)

lemma save_new_Some:
  "save_new e c d rs = Some (s, rs') \<Longrightarrow>
   s = pre_save d \<and> rs' = rs @ [s] \<and> validate d \<and> c \<and> db_write_ok e
   \<and> rec_id d \<notin> set (map rec_id rs)"
  by (auto simp: save_new_def split: if_splits)

lemma save_existing_Some:
  "save_existing e c d rs = Some (s, rs') \<Longrightarrow>
   s = pre_save d \<and> rs' = map (\<lambda>r. if rec_id r = rec_id d then s else r) rs
   \<and> validate d \<and> c \<and> db_write_ok e"
  by (auto simp: save_existing_def split: if_splits)

lemma create_try_201:
  assumes "create_try e b rfile uid w = Inr (res, w')" "status res = 201"
  shows "\<exists>r. data res = Some r \<and> findById (rows w') (rec_id r) = Some r
             \<and> fileType r = spec_classify (fileName r)"
proof (cases "case b_description b of None \<Rightarrow> True | Some d \<Rightarrow> d = [] \<or> trim d = []")
  case True
  with assms show ?thesis
    by (simp add: create_try_def fail_response_def split: option.splits sum.splits) auto
next
  case blank: False
  show ?thesis
  proof (cases rfile)
    case None
    with assms blank show ?thesis by (simp add: create_try_def fail_response_def) auto
  next
    case (Some f)
    let ?d = "create_doc e b f uid"
    let ?sv = "save_new e (cast_fileDate e (b_fileDate b) \<noteq> None) ?d (rows w)"
    show ?thesis
    proof (cases ?sv)
      case None
      with assms blank Some show ?thesis by (simp add: create_try_def)
    next
      case sv: (Some a)
      obtain s rs' where a: "a = (s, rs')" by (cases a)
      from assms(1) blank Some sv a
      have res: "res = ok_response 201 ''File uploaded successfully'' (Some s)"
        and w': "w' = w\<lparr>rows := rs'\<rparr>"
        by (simp_all add: create_try_def)
      from save_new_Some [OF sv [unfolded a]]
      have s: "s = pre_save ?d" "rs' = rows w @ [s]" "validate ?d"
        "rec_id ?d \<notin> set (map rec_id (rows w))" by auto
      have "findById (rows w') (rec_id s) = Some s"
        using s w' findById_append_new [of s "rows w"] by (simp add: pre_save_keeps)
      moreover have "fileType s = spec_classify (fileName s)"
        using s saved_classified by simp
      ultimately show ?thesis using res by (simp add: ok_response_def)
    qed
  qed
qed

lemma update_fields_rec_id: "update_fields e b r0 = (r, c) \<Longrightarrow> rec_id r = rec_id r0"
  by (auto simp: update_fields_def Let_def split: option.splits if_splits)

lemma update_save_200:
  assumes "update_save e c r w = Inr (res, w')" "findById (rows w) (rec_id r) = Some r0"
  shows "data res = Some (pre_save r) \<and> findById (rows w') (rec_id r) = Some (pre_save r)
         \<and> fileType (pre_save r) = spec_classify (fileName (pre_save r))
         \<and> files w' = files w \<and> status res = 200"
proof -
  from assms(1) obtain s rs' where
    sv: "save_existing e c r (rows w) = Some (s, rs')" and
    res: "res = ok_response 200 ''File record updated successfully'' (Some s)" and
    w': "w' = w\<lparr>rows := rs'\<rparr>"
    by (auto simp: update_save_def split: option.splits prod.splits)
  from save_existing_Some [OF sv] have s: "s = pre_save r"
    "rs' = map (\<lambda>x. if rec_id x = rec_id r then s else x) (rows w)" "validate r" by auto
  have "findById rs' (rec_id r) = Some s"
    unfolding s(2) using assms(2) s(1) by (intro findById_replaced) (simp_all add: pre_save_keeps)
  then show ?thesis using s res w' saved_classified by (simp add: ok_response_def)
qed

lemma update_try_200:
  assumes "update_try e i b rfile w = Inr (res, w')" "status res = 200"
  shows "\<exists>r. data res = Some r \<and> findById (rows w') i = Some r
             \<and> fileType r = spec_classify (fileName r)"
proof (cases "findById (rows w) i")
  case None
  with assms show ?thesis
    by (auto simp: update_try_def fail_response_def split: option.splits sum.splits)
next
  case (Some r0)
  obtain r c where uf: "update_fields e b r0 = (r, c)" by (cases "update_fields e b r0")
  have id: "rec_id r = i" using update_fields_rec_id [OF uf] findById_rec_id [OF Some] by simp
  from assms(1) Some uf obtain w1 r1 where
    us: "update_save e c r1 w1 = Inr (res, w')" and "rows w1 = rows w" and "rec_id r1 = i"
    by (auto simp: update_try_def id update_file_info_def split: option.splits sum.splits if_splits)
  with Some have "findById (rows w1) (rec_id r1) = Some r0" by simp
  from update_save_200 [OF us this] \<open>rec_id r1 = i\<close> show ?thesis by auto
qed

text \<open>
  Claim C10. After a create answered 201, and after an update answered 200 (with or
  without a replacement file), the record now stored under the identifier carries the
  file type that the classification gives for its current stored file name.
\<close>

theorem fileType_agrees_after_every_save:
  "(post_files e b m uid w = (Some res, w') \<and> status res = 201 \<longrightarrow>
      (\<exists>r. data res = Some r \<and> findById (rows w') (rec_id r) = Some r
           \<and> fileType r = spec_classify (fileName r)))
   \<and> (put_files e i b m w = (Some res, w') \<and> status res = 200 \<longrightarrow>
      (\<exists>r. data res = Some r \<and> findById (rows w') i = Some r
           \<and> fileType r = spec_classify (fileName r)))"
proof (intro conjI impI)
  assume a: "post_files e b m uid w = (Some res, w') \<and> status res = 201"
  then have "\<exists>rf w0. create_try e b rf uid w0 = Inr (res, w')"
    by (auto simp: post_files_def createFileRecord_def cleanup_catch_def fail_response_def
        split: multer_outcome.splits sum.splits prod.splits option.splits if_splits)
  with a create_try_201 show "\<exists>r. data res = Some r \<and> findById (rows w') (rec_id r) = Some r
           \<and> fileType r = spec_classify (fileName r)" by blast
next
  assume a: "put_files e i b m w = (Some res, w') \<and> status res = 200"
  then have "\<exists>rf w0. update_try e i b rf w0 = Inr (res, w')"
    by (auto simp: put_files_def updateFileRecord_def cleanup_catch_def fail_response_def
        split: multer_outcome.splits sum.splits prod.splits option.splits if_splits)
  with a update_try_200 show "\<exists>r. data res = Some r \<and> findById (rows w') i = Some r
           \<and> fileType r = spec_classify (fileName r)" by blast
qed

lemma example_post:
  "fst (post_files example_env example_body (Stored example_upload) 7 example_world) \<noteq> None"
  "status (the (fst (post_files example_env example_body (Stored example_upload) 7 example_world))) = 201"
  by (simp_all add: post_files_def uploaded_file_def upload_single_def createFileRecord_def
        create_try_def example_env_def example_body_def example_upload_def
        example_world_def example_record_def save_new_def create_doc_def new_FileRecord_def
        validate_def FILE_TYPE_CHOICES_def cast_fileDate_def set_letterRef_def
        ok_response_def trim_def isSpace_def)

lemma example_put:
  "fst (put_files example_env 1 metadata_body NoFile example_world) \<noteq> None"
  "status (the (fst (put_files example_env 1 metadata_body NoFile example_world))) = 200"
  by (simp_all add: put_files_def uploaded_file_def upload_single_def updateFileRecord_def
        update_try_def update_fields_def update_save_def findById_def
        example_env_def metadata_body_def
        example_world_def example_record_def save_existing_def
        validate_def FILE_TYPE_CHOICES_def cast_fileDate_def set_letterRef_def
        utc_midnight_def parse_date_only_def isDigit_def digitsVal_def digitVal_def
        days_in_month_def isLeap_def
        ok_response_def trim_def isSpace_def Let_def)

theorem fileType_agrees_after_every_save_witness:
  "status (the (fst (post_files example_env example_body (Stored example_upload) 7 example_world))) = 201
   \<and> (\<exists>r. data (the (fst (post_files example_env example_body (Stored example_upload) 7 example_world))) = Some r
          \<and> findById (rows (snd (post_files example_env example_body (Stored example_upload) 7 example_world))) (rec_id r) = Some r
          \<and> fileType r = spec_classify (fileName r))
   \<and> status (the (fst (put_files example_env 1 metadata_body NoFile example_world))) = 200
   \<and> (\<exists>r. data (the (fst (put_files example_env 1 metadata_body NoFile example_world))) = Some r
          \<and> findById (rows (snd (put_files example_env 1 metadata_body NoFile example_world))) 1 = Some r
          \<and> fileType r = spec_classify (fileName r))"
proof -
  let ?p = "post_files example_env example_body (Stored example_upload) 7 example_world"
  let ?u = "put_files example_env 1 metadata_body NoFile example_world"
  have p: "?p = (Some (the (fst ?p)), snd ?p)" using example_post(1) by (cases ?p) auto
  have u: "?u = (Some (the (fst ?u)), snd ?u)" using example_put(1) by (cases ?u) auto
  from fileType_agrees_after_every_save [where e = example_env and b = example_body
      and m = "Stored example_upload" and uid = 7 and w = example_world
      and res = "the (fst ?p)" and w' = "snd ?p", THEN conjunct1] p example_post(2)
  have 1: "\<exists>r. data (the (fst ?p)) = Some r \<and> findById (rows (snd ?p)) (rec_id r) = Some r
          \<and> fileType r = spec_classify (fileName r)" by blast
  from fileType_agrees_after_every_save [where e = example_env and b = metadata_body
      and m = NoFile and i = 1 and w = example_world
      and res = "the (fst ?u)" and w' = "snd ?u", THEN conjunct2] u example_put(2)
  have 2: "\<exists>r. data (the (fst ?u)) = Some r \<and> findById (rows (snd ?u)) 1 = Some r
          \<and> fileType r = spec_classify (fileName r)" by blast
  from 1 2 example_post(2) example_put(2) show ?thesis by blast
qed

section \<open>Replacement, export sort and delete\<close>

lemma update_fields_filePath: "update_fields e b r0 = (r, c) \<Longrightarrow> filePath r = filePath r0"
  by (auto simp: update_fields_def Let_def split: option.splits if_splits)

lemma rejected_replace_removes_both:
  assumes "findById (rows w) i = Some r0" and "update_fields e b r0 = (r, c)"
    and "save_existing e c (update_file_info f r) (rows w) = None"
    and "filePath r0 \<noteq> []" and "files w (filePath r0) = Some Removable"
    and "up_path f \<noteq> filePath r0"
  shows "put_files e i b (Stored f) w
     = (Some (fail_response 500 ''Error updating file record''),
        w\<lparr>files := (files w)(filePath r0 := None, up_path f := None)\<rparr>)"
proof -
  let ?w1 = "w\<lparr>files := (files w)(up_path f \<mapsto> Removable)\<rparr>"
  let ?w2 = "?w1\<lparr>files := (files ?w1)(filePath r0 := None)\<rparr>"
  have fp: "filePath r = filePath r0" using assms(2) by (rule update_fields_filePath)
  have old: "files ?w1 (filePath r0) = Some Removable" using assms(5,6) by simp
  have "update_try e i b (Some f) ?w1 = Inl (SaveRejected, ?w2)"
    using assms(1,2,3,4,5,6) 
    by (simp add: update_try_def fp existsSync_def unlinkSync_def update_save_def)
  moreover have "files ?w2 (up_path f) = Some Removable" using assms(6) by simp
  ultimately have "updateFileRecord e i b (Some f) ?w1
      = (Some (fail_response 500 ''Error updating file record''),
         ?w2\<lparr>files := (files ?w2)(up_path f := None)\<rparr>)"
    by (simp add: updateFileRecord_def cleanup_catch_Removable)
  moreover have "(files ?w2)(up_path f := None) = (files w)(filePath r0 := None, up_path f := None)"
    using assms(6) by (auto simp: fun_eq_iff)
  ultimately show ?thesis
    by (simp add: put_files_def uploaded_file_def upload_single_def)
qed

text \<open>
  Claim C2. A run of the update route against the claim (lemma
  \<open>rejected_replace_removes_both\<close> is the general case): the stored record's blob is
  on disk, the request carries a replacement file and a file date that cannot be cast.
  The handler removes the old blob, the save is rejected, the catch block removes the
  new blob, and the answer is 500: the row is unchanged and now names a path with no
  blob, and the replacement is gone as well.
\<close>

theorem failed_replace_loses_old_blob:
  "files example_world (filePath example_record) = Some Removable
   \<and> fst (put_files example_env 1 bad_date_body (Stored example_upload) example_world)
       = Some (fail_response 500 ''Error updating file record'')
   \<and> findById (rows (snd (put_files example_env 1 bad_date_body (Stored example_upload)
         example_world))) 1 = Some example_record
   \<and> files (snd (put_files example_env 1 bad_date_body (Stored example_upload) example_world))
       (filePath example_record) = None
   \<and> files (snd (put_files example_env 1 bad_date_body (Stored example_upload) example_world))
       (up_path example_upload) = None"
  by (simp add: put_files_def uploaded_file_def upload_single_def updateFileRecord_def
        update_try_def update_fields_def update_save_def update_file_info_def findById_def
        example_env_def bad_date_body_def example_upload_def
        example_world_def example_record_def save_existing_def
        cast_fileDate_def set_letterRef_def cleanup_catch_def existsSync_def unlinkSync_def
        utc_midnight_def parse_date_only_def isDigit_def
        fail_response_def Let_def)

lemma export_query_eq: "export_query e p = list_query e p"
  by (simp add: export_query_def list_query_def Let_def cong: option.case_cong if_cong split: option.splits)

lemma export_sort_eq_on_allow_list:
  "(case sortBy p of None \<Rightarrow> True | Some s \<Rightarrow> s \<in> set validSortFields)
   \<Longrightarrow> export_sortOptions p = list_sortOptions p"
  by (simp add: export_sortOptions_def list_sortOptions_def Let_def validSortFields_def
      split: option.splits)

text \<open>
  Claim C3. List and Export build the same query object from the same parameters
  (lemma \<open>export_query_eq\<close>) and the same sort object for a sort field of the
  allow-list (lemma \<open>export_sort_eq_on_allow_list\<close>), but for a sort field outside
  the allow-list they build different sort objects: List falls back to the upload
  time, Export passes the requested field on.
\<close>

theorem export_sort_skips_allow_list:
  "export_query example_env by_size_params = list_query example_env by_size_params
   \<and> list_sortOptions by_size_params = (''uploadDateTime'', 1)
   \<and> export_sortOptions by_size_params = (''fileSize'', 1)"
  by (simp add: export_query_eq list_sortOptions_def export_sortOptions_def by_size_params_def
      validSortFields_def sort_direction_def)

text \<open>
  Claim C4, as stated, fails: with a blob that exists and cannot be unlinked, Delete
  answers 500 and the row is still in the store.
\<close>

theorem delete_blocked_by_unlink_failure:
  "findById (rows locked_world) 1 = Some example_record
   \<and> fst (deleteFileRecord example_env 1 locked_world)
       = Some (fail_response 500 ''Error deleting file record'')
   \<and> findById (rows (snd (deleteFileRecord example_env 1 locked_world))) 1 = Some example_record"
  by (simp add: deleteFileRecord_def delete_try_def delete_row_def findById_def locked_world_def
      example_record_def existsSync_def unlinkSync_def)

lemma findById_deleted: "findById (filter (\<lambda>r. rec_id r \<noteq> i) rs) i = None"
  by (induction rs) (auto simp: findById_def)

lemma delete_row_ok:
  "db_write_ok e \<Longrightarrow>
   delete_row e i w = Inr (ok_response 200 ''File record deleted successfully'' None,
     w\<lparr>rows := filter (\<lambda>r. rec_id r \<noteq> i) (rows w)\<rparr>)"
  by (simp add: delete_row_def findByIdAndDelete_def)

text \<open>
  Claim C4, amended. For a Delete of an existing record: when the database accepts the
  deletion and the blob is missing (or the record has no path), Delete answers 200, the
  row is gone and storage is untouched; when the blob is there and can be unlinked,
  Delete answers 200, the row and the blob are gone; when the blob is there and cannot
  be unlinked, the failure is not swallowed: Delete answers 500 and both stores are as
  before.
\<close>

theorem delete_outcomes:
  assumes "findById (rows w) i = Some r" and "deleteFileRecord e i w = (res, w')"
  shows "(db_write_ok e \<and> (filePath r = [] \<or> files w (filePath r) = None) \<longrightarrow>
            res = Some (ok_response 200 ''File record deleted successfully'' None)
            \<and> findById (rows w') i = None \<and> files w' = files w)
       \<and> (db_write_ok e \<and> filePath r \<noteq> [] \<and> files w (filePath r) = Some Removable \<longrightarrow>
            res = Some (ok_response 200 ''File record deleted successfully'' None)
            \<and> findById (rows w') i = None \<and> files w' = (files w)(filePath r := None))
       \<and> (filePath r \<noteq> [] \<and> files w (filePath r) = Some Locked \<longrightarrow>
            res = Some (fail_response 500 ''Error deleting file record'') \<and> w' = w)"
proof -
  have 1: "res = Some (ok_response 200 ''File record deleted successfully'' None)
            \<and> findById (rows w') i = None \<and> files w' = files w"
    if a: "db_write_ok e \<and> (filePath r = [] \<or> files w (filePath r) = None)"
  proof -
    from a have "delete_try e i w = delete_row e i w"
      using assms(1) by (auto simp: delete_try_def existsSync_def)
    with a assms(2) show ?thesis
      by (auto simp: deleteFileRecord_def delete_row_ok findById_deleted)
  qed
  have 2: "res = Some (ok_response 200 ''File record deleted successfully'' None)
            \<and> findById (rows w') i = None \<and> files w' = (files w)(filePath r := None)"
    if a: "db_write_ok e \<and> filePath r \<noteq> [] \<and> files w (filePath r) = Some Removable"
  proof -
    from a have "delete_try e i w = delete_row e i (w\<lparr>files := (files w)(filePath r := None)\<rparr>)"
      using assms(1) by (simp add: delete_try_def existsSync_def unlinkSync_def)
    with a assms(2) show ?thesis
      by (auto simp: deleteFileRecord_def delete_row_ok findById_deleted)
  qed
  have 3: "res = Some (fail_response 500 ''Error deleting file record'') \<and> w' = w"
    if a: "filePath r \<noteq> [] \<and> files w (filePath r) = Some Locked"
  proof -
    from a have "delete_try e i w = Inl (EPERM, w)"
      using assms(1) by (simp add: delete_try_def existsSync_def unlinkSync_def)
    with assms(2) show ?thesis by (auto simp: deleteFileRecord_def)
  qed
  from 1 2 3 show ?thesis by blast
qed

lemma example_find: "findById (rows blobless_world) 1 = Some example_record"
  "findById (rows locked_world) 1 = Some example_record"
  "findById (rows example_world) 1 = Some example_record"
  by (simp_all add: findById_def blobless_world_def locked_world_def example_world_def example_record_def)

theorem delete_outcomes_witness:
  "fst (deleteFileRecord example_env 1 blobless_world)
     = Some (ok_response 200 ''File record deleted successfully'' None)
   \<and> findById (rows (snd (deleteFileRecord example_env 1 blobless_world))) 1 = None
   \<and> fst (deleteFileRecord example_env 1 example_world)
     = Some (ok_response 200 ''File record deleted successfully'' None)
   \<and> findById (rows (snd (deleteFileRecord example_env 1 example_world))) 1 = None
   \<and> files (snd (deleteFileRecord example_env 1 example_world)) (filePath example_record) = None
   \<and> fst (deleteFileRecord example_env 1 locked_world)
     = Some (fail_response 500 ''Error deleting file record'')
   \<and> snd (deleteFileRecord example_env 1 locked_world) = locked_world"
proof -
  have db: "db_write_ok example_env" by (simp add: example_env_def)
  have p: "filePath example_record = ''uploads/1705312800000_report_u1.pdf''"
    by (simp add: example_record_def)
  have 1: "files blobless_world (filePath example_record) = None"
    by (simp add: blobless_world_def)
  have 2: "files example_world (filePath example_record) = Some Removable"
    by (simp add: example_world_def p)
  have 3: "files locked_world (filePath example_record) = Some Locked"
    by (simp add: locked_world_def p)
  have ne: "filePath example_record \<noteq> []" by (simp add: p)
  from delete_outcomes [OF example_find(1) prod.collapse [symmetric], THEN conjunct1] db 1
  have a: "fst (deleteFileRecord example_env 1 blobless_world)
     = Some (ok_response 200 ''File record deleted successfully'' None)
   \<and> findById (rows (snd (deleteFileRecord example_env 1 blobless_world))) 1 = None"
    by simp
  from delete_outcomes [OF example_find(3) prod.collapse [symmetric], THEN conjunct2, THEN conjunct1] db 2 ne
  have b: "fst (deleteFileRecord example_env 1 example_world)
     = Some (ok_response 200 ''File record deleted successfully'' None)
   \<and> findById (rows (snd (deleteFileRecord example_env 1 example_world))) 1 = None
   \<and> files (snd (deleteFileRecord example_env 1 example_world)) (filePath example_record) = None"
    by simp
  from delete_outcomes [OF example_find(2) prod.collapse [symmetric], THEN conjunct2, THEN conjunct2] 3 ne
  have c: "fst (deleteFileRecord example_env 1 locked_world)
     = Some (fail_response 500 ''Error deleting file record'')
   \<and> snd (deleteFileRecord example_env 1 locked_world) = locked_world"
    by simp
  from a b c show ?thesis by simp
qed

section \<open>Update of the scalar fields\<close>

lemma dropWhile_rev_dropWhile:
  "dropWhile P (rev (dropWhile P (rev (dropWhile P s)))) = rev (dropWhile P (rev (dropWhile P s)))"
proof (cases "dropWhile P s")
  case Nil
  show ?thesis unfolding Nil by simp
next
  case (Cons x xs)
  then have nx: "\<not> P x" by (metis hd_dropWhile list.sel(1) list.distinct(1))
  have "dropWhile P (rev xs @ [x]) = dropWhile P (rev xs) @ [x]"
    using nx by (simp add: dropWhile_append)
  then have "rev (dropWhile P (rev (x # xs))) = x # rev (dropWhile P (rev xs))" by simp
  then show ?thesis unfolding Cons using nx by simp
qed

lemma trim_idem: "trim (trim s) = trim s"
proof -
  let ?t = "dropWhile isSpace (rev (dropWhile isSpace s))"
  have 1: "dropWhile isSpace (rev ?t) = rev ?t"
    using dropWhile_rev_dropWhile [of isSpace s] by simp
  have 2: "dropWhile isSpace ?t = ?t" by simp
  show ?thesis unfolding trim_def 1 by (simp add: 2)
qed

text \<open>
  Claim C9, as stated, fails: an update whose description is white space only and whose
  reference number is the empty string is answered 500, and the stored record keeps
  its reference number.
\<close>

theorem blank_description_fails_update:
  "findById (rows example_world) 1 = Some example_record
   \<and> letterReferenceNumber example_record = Some ''REF-1''
   \<and> fst (updateFileRecord example_env 1 blank_body None example_world)
       = Some (fail_response 500 ''Error updating file record'')
   \<and> findById (rows (snd (updateFileRecord example_env 1 blank_body None example_world))) 1
       = Some example_record"
  by (simp add: updateFileRecord_def update_try_def update_fields_def update_save_def
        findById_def example_env_def blank_body_def example_world_def example_record_def
        save_existing_def validate_def cast_fileDate_def set_letterRef_def cleanup_catch_def
        trim_def isSpace_def fail_response_def Let_def)

lemma update_fields_result:
  assumes "update_fields e b r0 = (r, c)" "c"
  shows "(b_letterReferenceNumber b = Some [] \<longrightarrow> letterReferenceNumber r = None)
     \<and> (\<forall>s. b_letterReferenceNumber b = Some s \<and> s \<noteq> [] \<longrightarrow> letterReferenceNumber r = Some (trim s))
     \<and> (b_letterReferenceNumber b = None \<longrightarrow> letterReferenceNumber r = letterReferenceNumber r0)
     \<and> (b_fileDate b = Some [] \<longrightarrow> fileDate r = None)
     \<and> (\<forall>s. b_fileDate b = Some s \<and> s \<noteq> [] \<longrightarrow> fileDate r = castDate e s \<and> castDate e s \<noteq> None)
     \<and> (b_fileDate b = None \<longrightarrow> fileDate r = fileDate r0)
     \<and> (\<forall>d. b_description b = Some d \<and> d \<noteq> [] \<longrightarrow> description r = trim d)
     \<and> (b_description b = None \<or> b_description b = Some [] \<longrightarrow> description r = description r0)
     \<and> fileName r = fileName r0 \<and> originalName r = originalName r0 \<and> filePath r = filePath r0
     \<and> fileSize r = fileSize r0 \<and> mimeType r = mimeType r0 \<and> fileType r = fileType r0
     \<and> rec_id r = rec_id r0 \<and> uploadedBy r = uploadedBy r0
     \<and> uploadDateTime r = uploadDateTime r0"
  using assms
  by (auto simp: update_fields_def Let_def cast_fileDate_def set_letterRef_def trim_idem
      split: option.splits if_splits)

lemma update_save_cast: "update_save e c r w = Inr x \<Longrightarrow> c"
  by (auto simp: update_save_def save_existing_def split: option.splits if_splits)

lemma update_save_valid: "update_save e c r w = Inr x \<Longrightarrow> validate r"
  by (auto simp: update_save_def save_existing_def split: option.splits if_splits)

lemma update_file_info_keeps:
  "description (update_file_info f r) = description r"
  "fileDate (update_file_info f r) = fileDate r"
  "letterReferenceNumber (update_file_info f r) = letterReferenceNumber r"
  "rec_id (update_file_info f r) = rec_id r"
  "uploadedBy (update_file_info f r) = uploadedBy r"
  "uploadDateTime (update_file_info f r) = uploadDateTime r"
  by (simp_all add: update_file_info_def)

lemma update_try_saved:
  assumes "update_try e i b rfile w = Inr (res, w')" "findById (rows w) i = Some r0"
    "update_fields e b r0 = (r, c)"
  shows "c \<and> validate (case rfile of None \<Rightarrow> r | Some f \<Rightarrow> update_file_info f r)
         \<and> data res = Some (pre_save (case rfile of None \<Rightarrow> r | Some f \<Rightarrow> update_file_info f r))
         \<and> findById (rows w') i
            = Some (pre_save (case rfile of None \<Rightarrow> r | Some f \<Rightarrow> update_file_info f r))"
proof -
  let ?r1 = "case rfile of None \<Rightarrow> r | Some f \<Rightarrow> update_file_info f r"
  have id: "rec_id r = i" using update_fields_rec_id [OF assms(3)] findById_rec_id [OF assms(2)] by simp
  then have id1: "rec_id ?r1 = i" by (simp add: update_file_info_keeps split: option.splits)
  from assms obtain w1 where
    us: "update_save e c ?r1 w1 = Inr (res, w')" and rw: "rows w1 = rows w"
    by (auto simp: update_try_def split: option.splits sum.splits if_splits)
  from rw assms(2) id1 have "findById (rows w1) (rec_id ?r1) = Some r0" by simp
  from update_save_200 [OF us this] update_save_cast [OF us] update_save_valid [OF us] id1
  show ?thesis by simp
qed

text \<open>
  Claim C9, amended. After an update of an existing record that is answered 200, the
  record stored under the identifier is the one returned, and: an empty-string
  reference number or file date has cleared that field; a non-empty description has
  replaced the stored one by its trimmed text, which is not empty (so a description of
  white space only never passes); an omitted or empty description, an omitted file
  date and an omitted reference number leave the stored value; without a replacement
  file the file fields are kept; identifier, uploader and upload time are kept.
\<close>

theorem update_scalar_fields:
  assumes "findById (rows w) i = Some r0"
    and "updateFileRecord e i b rfile w = (Some res, w')" and "status res = 200"
  shows "\<exists>r. findById (rows w') i = Some r \<and> data res = Some r
     \<and> (b_letterReferenceNumber b = Some [] \<longrightarrow> letterReferenceNumber r = None)
     \<and> (b_fileDate b = Some [] \<longrightarrow> fileDate r = None)
     \<and> (\<forall>d. b_description b = Some d \<and> d \<noteq> [] \<longrightarrow> description r = trim d \<and> trim d \<noteq> [])
     \<and> (b_description b = None \<or> b_description b = Some [] \<longrightarrow> description r = description r0)
     \<and> (b_fileDate b = None \<longrightarrow> fileDate r = fileDate r0)
     \<and> (b_letterReferenceNumber b = None \<longrightarrow> letterReferenceNumber r = letterReferenceNumber r0)
     \<and> (rfile = None \<longrightarrow> fileName r = fileName r0 \<and> originalName r = originalName r0
            \<and> filePath r = filePath r0 \<and> fileSize r = fileSize r0 \<and> mimeType r = mimeType r0)
     \<and> rec_id r = rec_id r0 \<and> uploadedBy r = uploadedBy r0
     \<and> uploadDateTime r = uploadDateTime r0"
proof -
  obtain r c where uf: "update_fields e b r0 = (r, c)" by (cases "update_fields e b r0")
  let ?r1 = "case rfile of None \<Rightarrow> r | Some f \<Rightarrow> update_file_info f r"
  from assms(2,3) have ut: "update_try e i b rfile w = Inr (res, w')"
    by (auto simp: updateFileRecord_def cleanup_catch_def fail_response_def
        split: sum.splits prod.splits option.splits if_splits)
  from update_try_saved [OF ut assms(1) uf]
  have c: c and v: "validate ?r1" and d: "data res = Some (pre_save ?r1)"
    and f: "findById (rows w') i = Some (pre_save ?r1)" by auto
  note fr = update_fields_result [OF uf c]
  from v have dne: "description ?r1 \<noteq> []" by (simp add: validate_def)
  have same: "description ?r1 = description r" "fileDate ?r1 = fileDate r"
    "letterReferenceNumber ?r1 = letterReferenceNumber r" "rec_id ?r1 = rec_id r"
    "uploadedBy ?r1 = uploadedBy r" "uploadDateTime ?r1 = uploadDateTime r"
    by (simp_all add: update_file_info_keeps split: option.splits)
  have nofile: "rfile = None \<Longrightarrow> ?r1 = r" by simp
  show ?thesis
  proof (intro exI [of _ "pre_save ?r1"] conjI)
    show "findById (rows w') i = Some (pre_save ?r1)" by (rule f)
    show "data res = Some (pre_save ?r1)" by (rule d)
    show "b_letterReferenceNumber b = Some [] \<longrightarrow> letterReferenceNumber (pre_save ?r1) = None"
      using fr by (simp add: pre_save_keeps same)
    show "b_fileDate b = Some [] \<longrightarrow> fileDate (pre_save ?r1) = None"
      using fr by (simp add: pre_save_keeps same)
    show "\<forall>d. b_description b = Some d \<and> d \<noteq> [] \<longrightarrow>
        description (pre_save ?r1) = trim d \<and> trim d \<noteq> []"
      using fr dne unfolding pre_save_keeps same by metis
    show "b_description b = None \<or> b_description b = Some [] \<longrightarrow>
        description (pre_save ?r1) = description r0"
      using fr by (simp add: pre_save_keeps same)
    show "b_fileDate b = None \<longrightarrow> fileDate (pre_save ?r1) = fileDate r0"
      using fr by (simp add: pre_save_keeps same)
    show "b_letterReferenceNumber b = None \<longrightarrow>
        letterReferenceNumber (pre_save ?r1) = letterReferenceNumber r0"
      using fr by (simp add: pre_save_keeps same)
    show "rfile = None \<longrightarrow> fileName (pre_save ?r1) = fileName r0
        \<and> originalName (pre_save ?r1) = originalName r0
        \<and> filePath (pre_save ?r1) = filePath r0 \<and> fileSize (pre_save ?r1) = fileSize r0
        \<and> mimeType (pre_save ?r1) = mimeType r0"
      using fr by (simp add: pre_save_keeps)
    show "rec_id (pre_save ?r1) = rec_id r0" using fr by (simp add: pre_save_keeps same)
    show "uploadedBy (pre_save ?r1) = uploadedBy r0" using fr by (simp add: pre_save_keeps same)
    show "uploadDateTime (pre_save ?r1) = uploadDateTime r0"
      using fr by (simp add: pre_save_keeps same)
  qed
qed

lemma example_find3: "findById (rows example_world) 1 = Some example_record"
  by (simp add: findById_def example_world_def example_record_def)

lemma example_clearing:
  "fst (updateFileRecord example_env 1 clearing_body None example_world) \<noteq> None"
  "status (the (fst (updateFileRecord example_env 1 clearing_body None example_world))) = 200"
  by (simp_all add: updateFileRecord_def
        update_try_def update_fields_def update_save_def findById_def
        example_env_def clearing_body_def
        example_world_def example_record_def save_existing_def
        validate_def FILE_TYPE_CHOICES_def cast_fileDate_def set_letterRef_def
        ok_response_def trim_def isSpace_def Let_def)

theorem update_scalar_fields_witness:
  "status (the (fst (updateFileRecord example_env 1 clearing_body None example_world))) = 200
   \<and> (\<exists>r. findById (rows (snd (updateFileRecord example_env 1 clearing_body None example_world))) 1
            = Some r
          \<and> letterReferenceNumber r = None \<and> fileDate r = None
          \<and> description r = ''Audit 2023''
          \<and> fileName r = fileName example_record \<and> filePath r = filePath example_record
          \<and> uploadDateTime r = uploadDateTime example_record)"
proof -
  let ?u = "updateFileRecord example_env 1 clearing_body None example_world"
  have u: "?u = (Some (the (fst ?u)), snd ?u)" using example_clearing(1) by (cases ?u) auto
  have t: "trim ''  Audit 2023 '' = ''Audit 2023''" by (simp add: trim_def isSpace_def)
  have b: "b_letterReferenceNumber clearing_body = Some []" "b_fileDate clearing_body = Some []"
    "b_description clearing_body = Some ''  Audit 2023 ''"
    by (simp_all add: clearing_body_def)
  from update_scalar_fields [OF example_find3 u example_clearing(2)]
  obtain r where r: "findById (rows (snd ?u)) 1 = Some r"
     "b_letterReferenceNumber clearing_body = Some [] \<longrightarrow> letterReferenceNumber r = None"
     "b_fileDate clearing_body = Some [] \<longrightarrow> fileDate r = None"
     "\<forall>d. b_description clearing_body = Some d \<and> d \<noteq> [] \<longrightarrow> description r = trim d \<and> trim d \<noteq> []"
     "fileName r = fileName example_record" "filePath r = filePath example_record"
     "uploadDateTime r = uploadDateTime example_record"
    by blast
  from r(4) b(3) t have "description r = ''Audit 2023''" by simp
  with r b example_clearing(2) show ?thesis by blast
qed

section \<open>Date range of the list and export filter\<close>

lemma utc_midnight_jan15: "utc_midnight ''2024-01-15'' = Some 1705276800000"
  by (simp add: utc_midnight_def parse_date_only_def isDigit_def digitsVal_def digitVal_def
      days_in_month_def isLeap_def days_from_civil_def msPerDay_def Let_def)

lemma utc_midnight_multiple: "utc_midnight s = Some a \<Longrightarrow> \<exists>k. a = k * msPerDay"
  by (auto simp: utc_midnight_def split: option.splits prod.splits)

lemma setHours_end_utc:
  "localTZA e = 0 \<Longrightarrow> setHours_end e (Date (k * msPerDay)) = Date (k * msPerDay + 86399999)"
  by (simp add: setHours_end_def msPerDay_def)

lemma new_Date_date_only: "utc_midnight s = Some a \<Longrightarrow> new_Date e s = Date a"
  by (simp add: new_Date_def)

lemma utc_midnight_nonempty: "utc_midnight s = Some a \<Longrightarrow> s \<noteq> []"
  by (auto simp: utc_midnight_def parse_date_only_def Let_def split: option.splits if_splits)

text \<open>
  The range at offset 0. On a server whose local time is UTC, and for date parameters
  that are absent, empty or date-only strings, the condition the query puts on the
  upload time is the specification's range: at or after 00:00:00.000 UTC of the start
  date and at or before 23:59:59.999 UTC of the end date. The millisecond before the
  start of the start date and the first millisecond of the day after the end date are
  left out.
\<close>

lemma date_range_inclusive_in_utc:
  assumes "localTZA e = 0"
    and "date_only_or_absent (startDate p)" and "date_only_or_absent (endDate p)"
  shows "date_filter (list_query e p) t = spec_in_range (startDate p) (endDate p) t
     \<and> (\<forall>s a. startDate p = Some s \<and> utc_midnight s = Some a \<longrightarrow>
            \<not> date_filter (list_query e p) (a - 1))
     \<and> (\<forall>s b. endDate p = Some s \<and> utc_midnight s = Some b \<longrightarrow>
            \<not> date_filter (list_query e p) (b + msPerDay))"
proof -
  have eod: "setHours_end e (Date a) = Date (a + 86399999)" if "utc_midnight s = Some a" for s a
    using utc_midnight_multiple [OF that] setHours_end_utc [OF assms(1)] by auto
  have main: "date_filter (list_query e p) u = spec_in_range (startDate p) (endDate p) u" for u
  proof (cases "startDate p")
    case sn: None
    show ?thesis
    proof (cases "endDate p")
      case None
      with sn show ?thesis
        by (simp add: date_filter_def list_query_def spec_in_range_def truthy_def Let_def)
    next
      case (Some ed)
      show ?thesis
      proof (cases "ed = []")
        case True
        with sn Some show ?thesis
          by (simp add: date_filter_def list_query_def spec_in_range_def truthy_def Let_def
              utc_midnight_def parse_date_only_def)
      next
        case False
        with assms(3) Some obtain b where b: "utc_midnight ed = Some b"
          by (auto simp: date_only_or_absent_def)
        with sn Some False eod [OF b] show ?thesis
          by (simp add: date_filter_def list_query_def spec_in_range_def truthy_def Let_def
              new_Date_date_only date_matches_def)
      qed
    qed
  next
    case ss: (Some sd)
    have lower: "sd \<noteq> [] \<Longrightarrow> \<exists>a. utc_midnight sd = Some a"
      using assms(2) ss by (auto simp: date_only_or_absent_def)
    have sd_empty: "sd = [] \<Longrightarrow> utc_midnight sd = None"
      by (simp add: utc_midnight_def parse_date_only_def)
    show ?thesis
    proof (cases "endDate p")
      case None
      with ss lower sd_empty show ?thesis
        by (cases "sd = []")
          (auto simp add: date_filter_def list_query_def spec_in_range_def truthy_def Let_def
            new_Date_date_only date_matches_def)
    next
      case (Some ed)
      have ed_empty: "ed = [] \<Longrightarrow> utc_midnight ed = None"
        by (simp add: utc_midnight_def parse_date_only_def)
      have upper: "ed \<noteq> [] \<Longrightarrow> \<exists>b. utc_midnight ed = Some b"
        using assms(3) Some by (auto simp: date_only_or_absent_def)
      show ?thesis
      proof (cases "sd = []"; cases "ed = []")
        assume "sd = []" "ed = []"
        with ss Some sd_empty ed_empty show ?thesis
          by (simp add: date_filter_def list_query_def spec_in_range_def truthy_def Let_def)
      next
        assume "sd = []" "ed \<noteq> []"
        with ss Some sd_empty upper eod show ?thesis
          by (auto simp add: date_filter_def list_query_def spec_in_range_def truthy_def Let_def
            new_Date_date_only date_matches_def)
      next
        assume "sd \<noteq> []" "ed = []"
        with ss Some lower ed_empty show ?thesis
          by (auto simp add: date_filter_def list_query_def spec_in_range_def truthy_def Let_def
            new_Date_date_only date_matches_def)
      next
        assume "sd \<noteq> []" "ed \<noteq> []"
        with ss Some lower upper eod show ?thesis
          by (auto simp add: date_filter_def list_query_def spec_in_range_def truthy_def Let_def
            new_Date_date_only date_matches_def)
      qed
    qed
  qed
  have lo: "\<not> date_filter (list_query e p) (a - 1)"
    if "startDate p = Some s \<and> utc_midnight s = Some a" for s a
    unfolding main using that by (simp add: spec_in_range_def)
  have hi: "\<not> date_filter (list_query e p) (b + msPerDay)"
    if "endDate p = Some s \<and> utc_midnight s = Some b" for s b
    unfolding main using that by (simp add: spec_in_range_def msPerDay_def)
  from main lo hi show ?thesis by blast
qed

lemma jan15_query:
  "q_uploadDateTime (list_query e jan15_params)
     = Some \<lparr>gte = Some (Date 1705276800000),
             lte = Some (setHours_end e (Date 1705276800000))\<rparr>"
  by (simp add: list_query_def jan15_params_def no_params_def truthy_def Let_def
      new_Date_def utc_midnight_jan15)

text \<open>
  Claim C6. A run against the claim, on a server whose local time is UTC-5 and with
  \<^verbatim>\<open>endDate=2024-01-15\<close>: the date is parsed as UTC midnight, the end of day is
  then set in local time, and the upper bound becomes 04:59:59.999 UTC of 15 January,
  the end of the previous local day. A record uploaded at 23:59:59.999 of 15 January is
  left out, whether that time is read in UTC or in the server's local time.
\<close>

theorem end_of_day_bound_is_local:
  "utc_midnight ''2024-01-15'' = Some 1705276800000
   \<and> endDate jan15_params = Some ''2024-01-15''
   \<and> 1705276800000 + 86399999 = (1705363199999 :: int)
   \<and> \<not> date_filter (list_query utc_minus5_env jan15_params) 1705363199999
   \<and> \<not> date_filter (list_query utc_minus5_env jan15_params) (1705363199999 + 18000000)"
proof -
  have tz: "localTZA utc_minus5_env = - 18000000"
    by (simp add: utc_minus5_env_def example_env_def)
  have e: "setHours_end utc_minus5_env (Date 1705276800000) = Date 1705294799999"
    by (simp add: setHours_end_def tz msPerDay_def)
  have 1: "\<not> date_filter (list_query utc_minus5_env jan15_params) 1705363199999"
    by (simp add: date_filter_def jan15_query e date_matches_def)
  have 2: "\<not> date_filter (list_query utc_minus5_env jan15_params) (1705363199999 + 18000000)"
    by (simp add: date_filter_def jan15_query e date_matches_def)
  have 3: "endDate jan15_params = Some ''2024-01-15''"
    by (simp add: jan15_params_def no_params_def)
  from 1 2 3 utc_midnight_jan15 show ?thesis by simp
qed

lemma date_range_in_utc_example:
  "localTZA example_env = 0
   \<and> date_filter (list_query example_env jan15_params) 1705276800000
   \<and> \<not> date_filter (list_query example_env jan15_params) 1705276799999
   \<and> date_filter (list_query example_env jan15_params) 1705363199999
   \<and> \<not> date_filter (list_query example_env jan15_params) 1705363200000"
proof -
  have tz: "localTZA example_env = 0" by (simp add: example_env_def)
  have sd: "startDate jan15_params = Some ''2024-01-15''"
    and ed: "endDate jan15_params = Some ''2024-01-15''"
    by (simp_all add: jan15_params_def no_params_def)
  have d1: "date_only_or_absent (startDate jan15_params)"
    and d2: "date_only_or_absent (endDate jan15_params)"
    by (simp_all add: sd ed date_only_or_absent_def utc_midnight_jan15)
  note th = date_range_inclusive_in_utc [OF tz d1 d2]
  have r: "date_filter (list_query example_env jan15_params) t
      = (1705276800000 \<le> t \<and> t \<le> 1705363199999)" for t
    using th [of t, THEN conjunct1]
    by (simp add: spec_in_range_def sd ed utc_midnight_jan15)
  from tz show ?thesis by (simp add: r)
qed

section \<open>Pagination of the listing\<close>

text \<open>
  Claim C5, as stated, fails: a negative page number or page size is kept as it is,
  not coerced to a positive integer.
\<close>

theorem negative_page_is_kept:
  "page negative_params = Some ''-3'' \<and> limit negative_params = Some ''-5''
   \<and> pageNum negative_params = - 3 \<and> limitNum negative_params = - 5"
  by (simp add: negative_params_def no_params_def pageNum_def limitNum_def parseInt_def
      or_default_def isSpace_def isDigit_def digitsVal_def digitVal_def Let_def)

lemma or_default_nonzero: "d \<noteq> 0 \<Longrightarrow> or_default v d \<noteq> 0"
  by (simp add: or_default_def split: option.splits)

lemma parseInt_nonneg:
  assumes "parseInt s = Some n" "CHR ''-'' \<notin> set s"
  shows "0 \<le> n"
proof -
  have "take 1 (dropWhile isSpace s) \<noteq> ''-''"
  proof
    assume a: "take 1 (dropWhile isSpace s) = ''-''"
    then have "CHR ''-'' \<in> set (take 1 (dropWhile isSpace s))" by simp
    then have "CHR ''-'' \<in> set (dropWhile isSpace s)" by (rule in_set_takeD)
    then have "CHR ''-'' \<in> set s" by (rule set_dropWhileD)
    with assms(2) show False by simp
  qed
  with assms(1) show ?thesis
    by (auto simp: parseInt_def Let_def split: if_splits)
qed

lemma or_default_pos: "0 < d \<Longrightarrow> (\<And>n. v = Some n \<Longrightarrow> 0 \<le> n) \<Longrightarrow> 0 < or_default v d"
  by (cases v) (auto simp: or_default_def)

lemma parseInt_1: "parseInt ''1'' = Some 1"
  by (simp add: parseInt_def isSpace_def isDigit_def digitsVal_def digitVal_def Let_def)

lemma parseInt_10: "parseInt ''10'' = Some 10"
  by (simp add: parseInt_def isSpace_def isDigit_def digitsVal_def digitVal_def Let_def)

lemma pageNum_cases:
  "pageNum p = (case page p of None \<Rightarrow> 1
                | Some s \<Rightarrow> (case parseInt s of None \<Rightarrow> 1 | Some n \<Rightarrow> if n = 0 then 1 else n))"
  by (simp add: pageNum_def or_default_def parseInt_1 split: option.splits)

lemma limitNum_cases:
  "limitNum p = (case limit p of None \<Rightarrow> 10
                | Some s \<Rightarrow> (case parseInt s of None \<Rightarrow> 10 | Some n \<Rightarrow> if n = 0 then 10 else n))"
  by (simp add: limitNum_def or_default_def parseInt_10 split: option.splits)

lemma pageNum_pos: "(\<And>s. page p = Some s \<Longrightarrow> CHR ''-'' \<notin> set s) \<Longrightarrow> 0 < pageNum p"
  using parseInt_nonneg
  by (fastforce simp: pageNum_cases split: option.splits)

lemma limitNum_pos: "(\<And>s. limit p = Some s \<Longrightarrow> CHR ''-'' \<notin> set s) \<Longrightarrow> 0 < limitNum p"
  using parseInt_nonneg
  by (fastforce simp: limitNum_cases split: option.splits)

lemma neg_div_ceil:
  fixes a l :: int
  assumes "0 < l"
  shows "- (- a div l) = (a + l - 1) div l"
proof -
  define q where "q = a div l"
  define r where "r = a mod l"
  have a: "a = r + q * l" by (simp add: q_def r_def)
  have r: "0 \<le> r" "r < l" using assms by (simp_all add: r_def)
  have gen: "(k * l) div l = k" for k using assms by simp
  show ?thesis
  proof (cases "r = 0")
    case True
    have "- a = (- q) * l" using a True by simp
    then have "- a div l = ((- q) * l) div l" by simp
    also have "\<dots> = - q" by (rule gen)
    finally have 1: "- a div l = - q" .
    have "(a + l - 1) div l = ((l - 1) + q * l) div l" using a True by (simp add: algebra_simps)
    also have "\<dots> = q + (l - 1) div l" using assms by simp
    also have "(l - 1) div l = 0" using assms by (simp add: div_pos_pos_trivial)
    finally show ?thesis using 1 by simp
  next
    case False
    have "- a = (l - r) + (- q - 1) * l" using a by (simp add: algebra_simps)
    then have "- a div l = ((l - r) + (- q - 1) * l) div l" by simp
    also have "\<dots> = (- q - 1) + (l - r) div l" using assms by (simp only: div_mult_self1) 
    also have "(l - r) div l = 0" using r False by (simp add: div_pos_pos_trivial)
    finally have 1: "- a div l = - q - 1" by simp
    have "(a + l - 1) div l = ((r - 1) + (q + 1) * l) div l" using a by (simp add: algebra_simps)
    also have "\<dots> = (q + 1) + (r - 1) div l" using assms by (simp only: div_mult_self1)
    also have "(r - 1) div l = 0" using r False by (simp add: div_pos_pos_trivial)
    finally show ?thesis using 1 by simp
  qed
qed

lemma ceil_div_pos:
  fixes l :: int
  assumes "0 < l"
  shows "\<lceil>real n / real_of_int l\<rceil> = (int n + l - 1) div l"
proof -
  have "\<lceil>real n / real_of_int l\<rceil> = \<lceil>real_of_int (int n) / real_of_int l\<rceil>" by simp
  also have "\<dots> = - (- int n div l)" by (rule ceiling_divide_eq_div)
  also have "\<dots> = (int n + l - 1) div l" using assms by (rule neg_div_ceil)
  finally show ?thesis .
qed

lemma make_pagination_fields:
  "currentPage (make_pagination pn l n) = pn"
  "recordsPerPage (make_pagination pn l n) = l"
  "totalRecords (make_pagination pn l n) = n"
  "totalPages (make_pagination pn l n) = \<lceil>real n / real_of_int l\<rceil>"
  "hasNextPage (make_pagination pn l n) = (pn < \<lceil>real n / real_of_int l\<rceil>)"
  "hasPrevPage (make_pagination pn l n) = (1 < pn)"
  by (simp_all add: make_pagination_def Let_def)

lemma getFileRecords_Inr:
  assumes "getFileRecords e p w = Inr d"
  shows "query_accepted e (list_query e p)
     \<and> skip_limit (skip p) (limitNum p)
          (mongo_sort e (list_sortOptions p) (filter (matches e (list_query e p)) (rows w)))
        = Some (records d)
     \<and> page_info d = make_pagination (pageNum p) (limitNum p)
          (length (filter (matches e (list_query e p)) (rows w)))"
  using assms
  by (auto simp: getFileRecords_def find_sorted_def countDocuments_def Let_def
      split: option.splits if_splits)

text \<open>
  Claim C5, amended. The page number and the page size are parsed as base-10 integers
  and are never 0: an absent or unparsable value, and the value 0, give 1 and 10; any
  other parsed value is kept, so they are positive whenever the parameter holds no
  minus sign.
  When the listing is answered, the total is the number of rows that satisfy the
  query's predicate, the page is cut from the sorted list of the rows that satisfy the
  same predicate (for a positive page number and size: \<open>limit\<close> rows after skipping
  \<open>(page - 1) * limit\<close>), the number of pages is the ceiling of total over page size
  (for a positive size, \<open>(total + size - 1) div size\<close>; 0 when nothing matches), and
  the two flags are \<open>currentPage < totalPages\<close> and \<open>1 < currentPage\<close>.
\<close>

theorem list_pagination_contract:
  "pageNum p \<noteq> 0 \<and> limitNum p \<noteq> 0
   \<and> (page p = None \<longrightarrow> pageNum p = 1) \<and> (limit p = None \<longrightarrow> limitNum p = 10)
   \<and> (\<forall>s. page p = Some s \<and> parseInt s = None \<longrightarrow> pageNum p = 1)
   \<and> (\<forall>s. limit p = Some s \<and> parseInt s = None \<longrightarrow> limitNum p = 10)
   \<and> (\<forall>s n. page p = Some s \<and> parseInt s = Some n \<longrightarrow> pageNum p = (if n = 0 then 1 else n))
   \<and> (\<forall>s n. limit p = Some s \<and> parseInt s = Some n \<longrightarrow>
          limitNum p = (if n = 0 then 10 else n))
   \<and> ((\<forall>s. page p = Some s \<longrightarrow> CHR ''-'' \<notin> set s) \<longrightarrow> 0 < pageNum p)
   \<and> ((\<forall>s. limit p = Some s \<longrightarrow> CHR ''-'' \<notin> set s) \<longrightarrow> 0 < limitNum p)
   \<and> (getFileRecords e p w = Inr d \<longrightarrow>
        totalRecords (page_info d) = length (filter (matches e (list_query e p)) (rows w))
      \<and> skip_limit (skip p) (limitNum p)
           (mongo_sort e (list_sortOptions p) (filter (matches e (list_query e p)) (rows w)))
          = Some (records d)
      \<and> (0 < pageNum p \<and> 0 < limitNum p \<longrightarrow>
           records d = take (nat (limitNum p)) (drop (nat ((pageNum p - 1) * limitNum p))
             (mongo_sort e (list_sortOptions p) (filter (matches e (list_query e p)) (rows w)))))
      \<and> currentPage (page_info d) = pageNum p \<and> recordsPerPage (page_info d) = limitNum p
      \<and> totalPages (page_info d)
          = \<lceil>real (totalRecords (page_info d)) / real_of_int (recordsPerPage (page_info d))\<rceil>
      \<and> (0 < limitNum p \<longrightarrow> totalPages (page_info d)
          = (int (totalRecords (page_info d)) + limitNum p - 1) div limitNum p)
      \<and> (totalRecords (page_info d) = 0 \<longrightarrow> totalPages (page_info d) = 0)
      \<and> hasNextPage (page_info d) = (currentPage (page_info d) < totalPages (page_info d))
      \<and> hasPrevPage (page_info d) = (1 < currentPage (page_info d)))"
proof -
  have c1: "pageNum p \<noteq> 0" by (simp add: pageNum_def or_default_nonzero)
  have c2: "limitNum p \<noteq> 0" by (simp add: limitNum_def or_default_nonzero)
  have c3: "page p = None \<longrightarrow> pageNum p = 1" by (simp add: pageNum_cases)
  have c4: "limit p = None \<longrightarrow> limitNum p = 10" by (simp add: limitNum_cases)
  have c5: "\<forall>s. page p = Some s \<and> parseInt s = None \<longrightarrow> pageNum p = 1"
    by (simp add: pageNum_cases)
  have c6: "\<forall>s. limit p = Some s \<and> parseInt s = None \<longrightarrow> limitNum p = 10"
    by (simp add: limitNum_cases)
  have c5': "\<forall>s n. page p = Some s \<and> parseInt s = Some n \<longrightarrow>
      pageNum p = (if n = 0 then 1 else n)"
    by (simp add: pageNum_cases)
  have c6': "\<forall>s n. limit p = Some s \<and> parseInt s = Some n \<longrightarrow>
      limitNum p = (if n = 0 then 10 else n)"
    by (simp add: limitNum_cases)
  have c7: "(\<forall>s. page p = Some s \<longrightarrow> CHR ''-'' \<notin> set s) \<longrightarrow> 0 < pageNum p"
    using pageNum_pos by blast
  have c8: "(\<forall>s. limit p = Some s \<longrightarrow> CHR ''-'' \<notin> set s) \<longrightarrow> 0 < limitNum p"
    using limitNum_pos by blast
  have c9: "totalRecords (page_info d) = length (filter (matches e (list_query e p)) (rows w))
      \<and> skip_limit (skip p) (limitNum p)
           (mongo_sort e (list_sortOptions p) (filter (matches e (list_query e p)) (rows w)))
          = Some (records d)
      \<and> (0 < pageNum p \<and> 0 < limitNum p \<longrightarrow>
           records d = take (nat (limitNum p)) (drop (nat ((pageNum p - 1) * limitNum p))
             (mongo_sort e (list_sortOptions p) (filter (matches e (list_query e p)) (rows w)))))
      \<and> currentPage (page_info d) = pageNum p \<and> recordsPerPage (page_info d) = limitNum p
      \<and> totalPages (page_info d)
          = \<lceil>real (totalRecords (page_info d)) / real_of_int (recordsPerPage (page_info d))\<rceil>
      \<and> (0 < limitNum p \<longrightarrow> totalPages (page_info d)
          = (int (totalRecords (page_info d)) + limitNum p - 1) div limitNum p)
      \<and> (totalRecords (page_info d) = 0 \<longrightarrow> totalPages (page_info d) = 0)
      \<and> hasNextPage (page_info d) = (currentPage (page_info d) < totalPages (page_info d))
      \<and> hasPrevPage (page_info d) = (1 < currentPage (page_info d))"
    if g: "getFileRecords e p w = Inr d"
  proof -
    let ?m = "filter (matches e (list_query e p)) (rows w)"
    let ?s = "mongo_sort e (list_sortOptions p) ?m"
    from getFileRecords_Inr [OF g]
    have sl: "skip_limit (skip p) (limitNum p) ?s = Some (records d)"
      and pi: "page_info d = make_pagination (pageNum p) (limitNum p) (length ?m)" by auto
    have pos: "records d = take (nat (limitNum p)) (drop (nat ((pageNum p - 1) * limitNum p)) ?s)"
      if "0 < pageNum p \<and> 0 < limitNum p"
    proof -
      from that have "0 \<le> skip p" by (simp add: skip_def)
      with sl that show ?thesis by (simp add: skip_limit_def skip_def split: if_splits)
    qed
    show ?thesis
      unfolding pi make_pagination_fields using sl pos ceil_div_pos [of "limitNum p" "length ?m"]
      by simp
  qed
  from c1 c2 c3 c4 c5 c6 c5' c6' c7 c8 c9 show ?thesis by blast
qed

lemma page2_nums: "pageNum page2_params = 2" "limitNum page2_params = 1" "skip page2_params = 1"
  by (simp_all add: page2_params_def no_params_def pageNum_def limitNum_def skip_def parseInt_def
      or_default_def isSpace_def isDigit_def digitsVal_def digitVal_def Let_def)

lemma page2_query:
  "list_query e page2_params = \<lparr>q_description = None, q_fileType = None, q_uploadDateTime = None\<rparr>"
  by (simp add: list_query_def page2_params_def no_params_def truthy_def Let_def)

lemma page2_matching:
  "filter (matches e (list_query e page2_params)) (rows two_world) = [example_record, second_record]"
  by (simp add: page2_query matches_def date_filter_def two_world_def)

lemma set_insert_sorted: "set (insert_sorted le x ys) = insert x (set ys)"
  by (induction ys) auto

lemma length_insert_sorted: "length (insert_sorted le x ys) = Suc (length ys)"
  by (induction ys) auto

lemma set_sort_records: "set (sort_records so rs) = set rs"
  by (induction rs) (simp_all add: sort_records_def set_insert_sorted)

lemma length_sort_records: "length (sort_records so rs) = length rs"
  by (induction rs) (simp_all add: sort_records_def length_insert_sorted)

lemma newest_first:
  "sort_records (''uploadDateTime'', - 1) [example_record, second_record]
     = [second_record, example_record]"
  by (simp add: sort_records_def sort_order_def field_value_def example_record_def
      second_record_def)

lemma page2_sorted:
  "mongo_sort example_env (list_sortOptions page2_params) [example_record, second_record]
     = [second_record, example_record]"
proof -
  have "list_sortOptions page2_params = (''uploadDateTime'', - 1)"
    by (simp add: list_sortOptions_def page2_params_def no_params_def validSortFields_def
        sort_direction_def)
  moreover have "mongo_sort example_env = sort_records" by (simp add: example_env_def)
  ultimately show ?thesis by (simp add: newest_first)
qed

lemma page2_answer: "\<not> isl (getFileRecords example_env page2_params two_world)"
  by (simp add: getFileRecords_def find_sorted_def countDocuments_def query_accepted_def
      page2_query page2_nums skip_limit_def Let_def)

theorem list_pagination_contract_witness:
  "uploadDateTime example_record < uploadDateTime second_record
   \<and> (\<exists>d. getFileRecords example_env page2_params two_world = Inr d
      \<and> records d = [example_record]
      \<and> totalRecords (page_info d) = 2 \<and> totalPages (page_info d) = 2
      \<and> currentPage (page_info d) = 2 \<and> recordsPerPage (page_info d) = 1
      \<and> \<not> hasNextPage (page_info d) \<and> hasPrevPage (page_info d))"
proof -
  let ?d = "projr (getFileRecords example_env page2_params two_world)"
  have g: "getFileRecords example_env page2_params two_world = Inr ?d"
    using page2_answer by simp
  note th = list_pagination_contract [where e = example_env and p = page2_params and w = two_world
      and d = ?d]
  from th g have tr: "totalRecords (page_info ?d) = 2" by (simp add: page2_matching)
  from th g have cp: "currentPage (page_info ?d) = 2" "recordsPerPage (page_info ?d) = 1"
    by (simp_all add: page2_nums)
  from th g have "totalPages (page_info ?d)
      = \<lceil>real (totalRecords (page_info ?d)) / real_of_int (recordsPerPage (page_info ?d))\<rceil>"
    by blast
  then have tp: "totalPages (page_info ?d) = 2" by (simp add: tr cp)
  from th g have "hasNextPage (page_info ?d) = (currentPage (page_info ?d) < totalPages (page_info ?d))"
    "hasPrevPage (page_info ?d) = (1 < currentPage (page_info ?d))" by blast+
  then have hn: "\<not> hasNextPage (page_info ?d)" "hasPrevPage (page_info ?d)"
    by (simp_all add: tp cp)
  from th g have "records ?d = take (nat (limitNum page2_params))
      (drop (nat ((pageNum page2_params - 1) * limitNum page2_params))
        (mongo_sort example_env (list_sortOptions page2_params)
          (filter (matches example_env (list_query example_env page2_params)) (rows two_world))))"
    by (simp add: page2_nums)
  then have rc: "records ?d = [example_record]"
    by (simp add: page2_nums page2_matching page2_sorted)
  have older: "uploadDateTime example_record < uploadDateTime second_record"
    by (simp add: example_record_def second_record_def)
  from g rc tr tp cp hn older show ?thesis by blast
qed

section \<open>The export: worksheet and archive\<close>

lemma add_rows_enumerate:
  "add_rows e i rs sheet = sheet @ map (\<lambda>(k, r). make_row e k r) (enumerate i rs)"
  by (induction rs arbitrary: i sheet) simp_all

lemma add_files_enumerate:
  "add_files f i rs a
     = a @ map (\<lambda>(k, r). (''files/'' @ uniqueFilename k r, FromFile (filePath r)))
            (filter (\<lambda>(k, r). filePath r \<noteq> [] \<and> existsSync f (filePath r)) (enumerate i rs))"
  by (induction rs arbitrary: i a) simp_all

lemma lt10_cases: "(n::nat) < 10 \<Longrightarrow> n \<in> {0, 1, 2, 3, 4, 5, 6, 7, 8, 9}"
  by simp arith

lemma digitVal_digitChar: "n < 10 \<Longrightarrow> digitVal (digitChar n) = n"
  by (drule lt10_cases) (auto simp add: digitVal_def digitChar_def)

lemma isDigit_digitChar: "isDigit (digitChar n)"
proof -
  have "n mod 10 < 10" by simp
  from lt10_cases [OF this] show ?thesis
    by (auto simp add: isDigit_def digitChar_def)
qed

lemma digitChar_mod: "digitChar (n mod 10) = digitChar n"
  by (simp add: digitChar_def)

lemma digitsVal_snoc: "digitsVal (s @ [c]) = 10 * digitsVal s + digitVal c"
  by (simp add: digitsVal_def)

lemma digitsVal_String_of: "digitsVal (String_of n) = n"
proof (induction n rule: String_of.induct)
  case (1 n)
  show ?case
  proof (cases "n < 10")
    case True
    then show ?thesis
      by (simp add: String_of.simps [of n] digitsVal_def digitVal_digitChar)
  next
    case False
    have "digitVal (digitChar n) = n mod 10"
      using digitVal_digitChar [of "n mod 10"] by (simp add: digitChar_mod)
    with False 1 show ?thesis
      by (simp add: String_of.simps [of n] digitsVal_snoc)
  qed
qed

lemma digits_String_of: "list_all isDigit (String_of n)"
proof (induction n rule: String_of.induct)
  case (1 n)
  then show ?case
    by (cases "n < 10") (simp_all add: String_of.simps [of n] isDigit_digitChar)
qed

lemma String_of_nonempty: "String_of n \<noteq> []"
  by (subst String_of.simps) simp

lemma digitVal_zero: "digitVal CHR ''0'' = 0"
  by (simp add: digitVal_def)

lemma digitsVal_zeros: "digitsVal (replicate k CHR ''0'' @ s) = digitsVal s"
  by (induction k) (simp_all add: digitsVal_def digitVal_zero)

lemma digitsVal_padStart: "digitsVal (padStart n CHR ''0'' (String_of a)) = a"
  by (simp add: padStart_def digitsVal_zeros digitsVal_String_of)

lemma isDigit_zero: "isDigit CHR ''0''"
  by (simp add: isDigit_def)

lemma digits_padStart: "list_all isDigit (padStart n CHR ''0'' (String_of a))"
  using digits_String_of [of a] by (auto simp add: padStart_def list_all_iff isDigit_zero)

lemma length_padStart: "length (padStart n c s) = max n (length s)"
  by (simp add: padStart_def)

lemma length_String_of_3: "n < 1000 \<Longrightarrow> length (String_of n) \<le> 3"
proof -
  assume a: "n < 1000"
  then have b: "n div 10 div 10 < 10" by arith
  show ?thesis
    using b by (simp add: String_of.simps [of n] String_of.simps [of "n div 10"]
        String_of.simps [of "n div 10 div 10"])
qed

lemma takeWhile_digits:
  "list_all P u \<Longrightarrow> \<not> P c \<Longrightarrow> takeWhile P (u @ c # x) = u"
  by (induction u) auto

lemma not_digit_underscore: "\<not> isDigit CHR ''_''"
  by (simp add: isDigit_def)

lemma uniqueFilename_prefix:
  "takeWhile isDigit (uniqueFilename k r) = padStart 3 CHR ''0'' (String_of (k + 1))"
  using takeWhile_digits [OF digits_padStart not_digit_underscore]
  by (simp add: uniqueFilename_def Let_def)

lemma uniqueFilename_index: "uniqueFilename k r = uniqueFilename k' r' \<Longrightarrow> k = k'"
proof -
  assume "uniqueFilename k r = uniqueFilename k' r'"
  then have "takeWhile isDigit (uniqueFilename k r) = takeWhile isDigit (uniqueFilename k' r')"
    by simp
  then have "padStart 3 CHR ''0'' (String_of (k + 1)) = padStart 3 CHR ''0'' (String_of (k' + 1))"
    by (simp only: uniqueFilename_prefix)
  then have "digitsVal (padStart 3 CHR ''0'' (String_of (k + 1)))
      = digitsVal (padStart 3 CHR ''0'' (String_of (k' + 1)))" by simp
  then show ?thesis by (simp add: digitsVal_padStart)
qed

lemma length_last_part: "length (last_part p) \<le> length p"
proof -
  have "length (takeWhile (\<lambda>c. c \<noteq> CHR ''/'') (dropWhile (\<lambda>c. c = CHR ''/'') (rev p)))
      \<le> length (dropWhile (\<lambda>c. c = CHR ''/'') (rev p))" by (rule length_takeWhile_le)
  also have "\<dots> \<le> length (rev p)" by (rule length_dropWhile_le)
  finally show ?thesis by (simp add: last_part_def)
qed

lemma split_at_last_dot:
  assumes "CHR ''.'' \<in> set b"
  shows "\<exists>pre. b = pre @ CHR ''.'' # rev (takeWhile (\<lambda>c. c \<noteq> CHR ''.'') (rev b))"
proof -
  let ?t = "takeWhile (\<lambda>c. c \<noteq> CHR ''.'') (rev b)"
  let ?d = "dropWhile (\<lambda>c. c \<noteq> CHR ''.'') (rev b)"
  from assms have "?d \<noteq> []" by simp
  then obtain x rest where d: "?d = x # rest" by (cases ?d) auto
  have "x = hd ?d" using d by simp
  moreover have "\<not> (hd ?d \<noteq> CHR ''.'')" using \<open>?d \<noteq> []\<close> by (rule hd_dropWhile)
  ultimately have x: "x = CHR ''.''" by simp
  have "rev b = ?t @ ?d" by simp
  then have "rev b = ?t @ CHR ''.'' # rest" using d x by simp
  then have "b = rev (?t @ CHR ''.'' # rest)" by (metis rev_rev_ident)
  then have "b = rev rest @ CHR ''.'' # rev ?t" by simp
  then show ?thesis by blast
qed

lemma basename_extname: "basename p (extname p) @ extname p = last_part p"
proof (cases "extname p = []")
  case True
  then show ?thesis by (simp add: basename_def)
next
  case False
  let ?b = "last_part p"
  let ?e = "rev (takeWhile (\<lambda>c. c \<noteq> CHR ''.'') (rev ?b))"
  from False have dot: "CHR ''.'' \<in> set ?b" and len: "length ?e + 1 \<noteq> length ?b"
    and ext: "extname p = CHR ''.'' # ?e"
    by (auto simp: extname_def Let_def split: if_splits)
  from split_at_last_dot [OF dot] obtain pre where b: "?b = pre @ extname p"
    unfolding ext by blast
  have pre: "pre \<noteq> []"
  proof
    assume "pre = []"
    with b have "length ?b = length (extname p)" by simp
    with ext have "length ?b = length ?e + 1" by simp
    with len show False by simp
  qed
  have l1: "length (extname p) < length ?b" using b pre by (metis length_append length_greater_0_conv less_add_same_cancel2)
  have l2: "extname p \<noteq> p" using l1 length_last_part [of p] by auto
  have "length ?b - length (extname p) = length pre" using b by (metis add_diff_cancel_right' length_append)
  then have d: "drop (length ?b - length (extname p)) ?b = extname p"
    and t: "take (length ?b - length (extname p)) ?b = pre"
    using b by (metis append_eq_conv_conj)+
  show ?thesis using False l1 l2 d t b by (simp add: basename_def Let_def)
qed

lemma uniqueFilename_eq:
  "uniqueFilename k r
     = padStart 3 CHR ''0'' (String_of (k + 1)) @ ''_'' @ last_part (originalName r)"
  by (simp add: uniqueFilename_def Let_def basename_extname)

lemma export_names_distinct:
  "distinct (map (\<lambda>(k, r). ''files/'' @ uniqueFilename k r)
      (filter P (enumerate 0 rs)))"
proof -
  have inj: "inj_on (\<lambda>(k, r). ''files/'' @ uniqueFilename k r) (set (filter P (enumerate 0 rs)))"
  proof (rule inj_onI)
    fix x y
    assume x: "x \<in> set (filter P (enumerate 0 rs))" and y: "y \<in> set (filter P (enumerate 0 rs))"
      and eq: "(case x of (k, r) \<Rightarrow> ''files/'' @ uniqueFilename k r)
             = (case y of (k, r) \<Rightarrow> ''files/'' @ uniqueFilename k r)"
    obtain k r where xk: "x = (k, r)" by (cases x)
    obtain k' r' where yk: "y = (k', r')" by (cases y)
    from eq xk yk have "uniqueFilename k r = uniqueFilename k' r'" by simp
    then have kk: "k = k'" by (rule uniqueFilename_index)
    from x xk have "r = rs ! k" by (auto simp: in_set_enumerate_eq)
    moreover from y yk have "r' = rs ! k'" by (auto simp: in_set_enumerate_eq)
    ultimately show "x = y" using kk xk yk by simp
  qed
  have "distinct (filter P (enumerate 0 rs))" by (simp add: distinct_enumerate)
  with inj show ?thesis by (simp add: distinct_map)
qed

lemma exportToExcel_Inr:
  assumes "find_sorted e (export_query e p) (export_sortOptions p) (rows w) = Some rs"
  shows "exportToExcel e p w
     = Inr (map (\<lambda>(k, r). make_row e k r) (enumerate 0 rs),
            (''records.xlsx'', FromBuffer (map (\<lambda>(k, r). make_row e k r) (enumerate 0 rs))) #
            map (\<lambda>(k, r). (''files/'' @ uniqueFilename k r, FromFile (filePath r)))
              (filter (\<lambda>(k, r). filePath r \<noteq> [] \<and> files w (filePath r) \<noteq> None)
                 (enumerate 0 rs)))"
  using assms
  by (simp add: exportToExcel_def Let_def add_rows_enumerate add_files_enumerate existsSync_def)

lemma sheet_nth:
  "k < length rs \<Longrightarrow> map (\<lambda>(k, r). make_row e k r) (enumerate 0 rs) ! k = make_row e k (rs ! k)"
  by (simp add: nth_enumerate_eq)

lemma fst_entry:
  "map fst (map (\<lambda>(k, r). (''files/'' @ uniqueFilename k r, FromFile (filePath r))) xs)
     = map (\<lambda>(k, r). ''files/'' @ uniqueFilename k r) xs"
  by (induction xs) auto

text \<open>
  Claim C7, amended. Whenever the store answers the export's query with the records
  \<open>rs\<close>, whatever is or is not on disk, the export is produced: the worksheet holds
  one row per record, in order, row \<open>k\<close> (from 0) carrying the sequence number
  \<open>k + 1\<close> and the record's description and original name; the archive holds the
  spreadsheet and then, for exactly the records whose blob is on disk and in their
  order, the blob under \<^verbatim>\<open>files/\<close> named by the sequence number padded with
  zeros to at least three digits, an underscore, and the base name and the extension
  of the original name. The entry names are pairwise distinct. The padded number is
  made of digits, reads back as the sequence number, and is exactly three characters
  long for sequence numbers below 1000; base name and extension together are the last
  portion of the original name.
\<close>

theorem export_sheet_and_archive:
  assumes "find_sorted e (export_query e p) (export_sortOptions p) (rows w) = Some rs"
  shows "\<exists>sheet arch. exportToExcel e p w = Inr (sheet, arch)
     \<and> sheet = map (\<lambda>(k, r). make_row e k r) (enumerate 0 rs)
     \<and> length sheet = length rs
     \<and> (\<forall>k<length rs. sheet ! k = make_row e k (rs ! k) \<and> row_id (sheet ! k) = k + 1
            \<and> row_description (sheet ! k) = description (rs ! k)
            \<and> row_fileName (sheet ! k) = originalName (rs ! k))
     \<and> arch = (''records.xlsx'', FromBuffer sheet) #
          map (\<lambda>(k, r). (''files/'' @ padStart 3 CHR ''0'' (String_of (k + 1)) @ ''_''
                            @ basename (originalName r) (extname (originalName r))
                            @ extname (originalName r),
                          FromFile (filePath r)))
            (filter (\<lambda>(k, r). filePath r \<noteq> [] \<and> files w (filePath r) \<noteq> None)
               (enumerate 0 rs))
     \<and> distinct (map fst arch)
     \<and> (\<forall>k. list_all isDigit (padStart 3 CHR ''0'' (String_of (k + 1)))
            \<and> digitsVal (padStart 3 CHR ''0'' (String_of (k + 1))) = k + 1
            \<and> length (padStart 3 CHR ''0'' (String_of (k + 1))) = max 3 (length (String_of (k + 1)))
            \<and> (k + 1 < 1000 \<longrightarrow> length (padStart 3 CHR ''0'' (String_of (k + 1))) = 3))
     \<and> (\<forall>n. basename n (extname n) @ extname n = last_part n)"
proof -
  let ?sheet = "map (\<lambda>(k, r). make_row e k r) (enumerate 0 rs)"
  let ?present = "\<lambda>(k, r). filePath r \<noteq> [] \<and> files w (filePath r) \<noteq> None"
  let ?entries = "map (\<lambda>(k, r). (''files/'' @ uniqueFilename k r, FromFile (filePath r)))
              (filter ?present (enumerate 0 rs))"
  let ?arch = "(''records.xlsx'', FromBuffer ?sheet) # ?entries"
  have 1: "exportToExcel e p w = Inr (?sheet, ?arch)" using assms by (rule exportToExcel_Inr)
  have 0: "?sheet = map (\<lambda>(k, r). make_row e k r) (enumerate 0 rs)" by (rule refl)
  have 2: "length ?sheet = length rs" by simp
  have 3: "\<forall>k<length rs. ?sheet ! k = make_row e k (rs ! k) \<and> row_id (?sheet ! k) = k + 1
            \<and> row_description (?sheet ! k) = description (rs ! k)
            \<and> row_fileName (?sheet ! k) = originalName (rs ! k)"
  proof (intro allI impI)
    fix k assume k: "k < length rs"
    have n: "?sheet ! k = make_row e k (rs ! k)" using k by (rule sheet_nth)
    show "?sheet ! k = make_row e k (rs ! k) \<and> row_id (?sheet ! k) = k + 1
            \<and> row_description (?sheet ! k) = description (rs ! k)
            \<and> row_fileName (?sheet ! k) = originalName (rs ! k)"
      unfolding n by (simp add: make_row_def)
  qed
  have uf: "(\<lambda>(k, r). (''files/'' @ uniqueFilename k r, FromFile (filePath r)))
      = (\<lambda>(k, r). (''files/'' @ padStart 3 CHR ''0'' (String_of (k + 1)) @ ''_''
                            @ basename (originalName r) (extname (originalName r))
                            @ extname (originalName r),
                          FromFile (filePath r)))"
    by (simp add: uniqueFilename_def Let_def)
  have 4: "?arch = (''records.xlsx'', FromBuffer ?sheet) #
          map (\<lambda>(k, r). (''files/'' @ padStart 3 CHR ''0'' (String_of (k + 1)) @ ''_''
                            @ basename (originalName r) (extname (originalName r))
                            @ extname (originalName r),
                          FromFile (filePath r)))
            (filter ?present (enumerate 0 rs))"
    by (simp only: uf)
  have "''records.xlsx'' \<notin> set (map fst ?entries)"
    unfolding fst_entry by auto
  moreover have "distinct (map fst ?entries)"
    unfolding fst_entry by (rule export_names_distinct)
  ultimately have 5: "distinct (map fst ?arch)" by simp
  have 6: "\<forall>k. list_all isDigit (padStart 3 CHR ''0'' (String_of (k + 1)))
            \<and> digitsVal (padStart 3 CHR ''0'' (String_of (k + 1))) = k + 1
            \<and> length (padStart 3 CHR ''0'' (String_of (k + 1))) = max 3 (length (String_of (k + 1)))
            \<and> (k + 1 < 1000 \<longrightarrow> length (padStart 3 CHR ''0'' (String_of (k + 1))) = 3)"
    using length_String_of_3
    by (auto simp: digits_padStart digitsVal_padStart length_padStart)
  have 7: "\<forall>n. basename n (extname n) @ extname n = last_part n"
    by (simp add: basename_extname)
  show ?thesis
    apply (rule exI [of _ ?sheet])
    apply (rule exI [of _ ?arch])
    using 0 1 2 3 4 5 6 7 by blast
qed


lemma export_default_sort: "export_sortOptions no_params = (''uploadDateTime'', - 1)"
  by (simp add: export_sortOptions_def no_params_def sort_direction_def)

lemma no_params_query:
  "export_query e no_params
     = \<lparr>q_description = None, q_fileType = None, q_uploadDateTime = None\<rparr>"
  by (simp add: export_query_def no_params_def truthy_def Let_def)

lemma no_params_found:
  "find_sorted example_env (export_query example_env no_params) (export_sortOptions no_params) rs
     = Some (sort_records (''uploadDateTime'', - 1) rs)"
  by (simp add: find_sorted_def query_accepted_def no_params_query export_default_sort
      matches_def date_filter_def example_env_def)

lemma two_world_found:
  "find_sorted example_env (export_query example_env no_params) (export_sortOptions no_params)
     (rows two_world) = Some [second_record, example_record]"
  by (simp add: no_params_found two_world_def newest_first)

lemma String_of_2: "padStart 3 CHR ''0'' (String_of (Suc (Suc 0))) = ''002''"
proof -
  have "String_of (Suc (Suc 0)) = ''2''"
    by (simp add: String_of.simps [of "Suc (Suc 0)"] digitChar_def)
  then show ?thesis by (simp add: padStart_def numeral_eq_Suc)
qed

lemma report_name:
  "basename ''report.pdf'' (extname ''report.pdf'') @ extname ''report.pdf'' = ''report.pdf''"
  by (simp add: basename_extname last_part_def)

lemma printed_instants:
  "iso_string 1705399200000 = ''2024-01-16T10:00:00.000Z''"
  "iso_string 1705312800000 = ''2024-01-15T10:00:00.000Z''"
  by code_simp+

theorem export_sheet_and_archive_witness:
  "\<exists>sheet arch. exportToExcel example_env no_params two_world = Inr (sheet, arch)
     \<and> map row_id sheet = [1, 2]
     \<and> map row_fileName sheet = [''minutes.docx'', ''report.pdf'']
     \<and> map row_uploadDateTime sheet = [''2024-01-16 10:00:00'', ''2024-01-15 10:00:00'']
     \<and> files two_world (filePath second_record) = None
     \<and> arch = [(''records.xlsx'', FromBuffer sheet),
               (''files/002_report.pdf'', FromFile ''uploads/1705312800000_report_u1.pdf'')]"
proof -
  from export_sheet_and_archive [OF two_world_found]
  obtain sheet arch where
    x: "exportToExcel example_env no_params two_world = Inr (sheet, arch)" and
    s: "sheet = map (\<lambda>(k, r). make_row example_env k r) (enumerate 0 [second_record, example_record])" and
    a: "arch = (''records.xlsx'', FromBuffer sheet) #
          map (\<lambda>(k, r). (''files/'' @ padStart 3 CHR ''0'' (String_of (k + 1)) @ ''_''
                            @ basename (originalName r) (extname (originalName r))
                            @ extname (originalName r),
                          FromFile (filePath r)))
            (filter (\<lambda>(k, r). filePath r \<noteq> [] \<and> files two_world (filePath r) \<noteq> None)
               (enumerate 0 [second_record, example_record]))"
    by blast
  have p1: "filePath example_record = ''uploads/1705312800000_report_u1.pdf''"
    "originalName example_record = ''report.pdf''"
    "uploadDateTime example_record = 1705312800000"
    by (simp_all add: example_record_def)
  have p2: "filePath second_record = ''uploads/1705399200000_minutes_u2.docx''"
    "originalName second_record = ''minutes.docx''"
    "uploadDateTime second_record = 1705399200000"
    by (simp_all add: second_record_def)
  have f1: "files two_world ''uploads/1705312800000_report_u1.pdf'' = Some Removable"
    and f2: "files two_world ''uploads/1705399200000_minutes_u2.docx'' = None"
    by (simp_all add: two_world_def)
  have iso: "toISOString example_env = iso_string" by (simp add: example_env_def)
  have ids: "map row_id sheet = [1, 2]" unfolding s by (simp add: make_row_def)
  have names: "map row_fileName sheet = [''minutes.docx'', ''report.pdf'']"
    unfolding s by (simp add: make_row_def p1 p2)
  have times: "map row_uploadDateTime sheet = [''2024-01-16 10:00:00'', ''2024-01-15 10:00:00'']"
    unfolding s by (simp add: make_row_def p1 p2 iso printed_instants)
  have arch: "arch = [(''records.xlsx'', FromBuffer sheet),
               (''files/002_report.pdf'', FromFile ''uploads/1705312800000_report_u1.pdf'')]"
    unfolding a by (simp add: p1 p2 f1 f2 String_of_2 report_name)
  from x ids names times arch f2 p2 show ?thesis by simp
qed

lemma String_of_1000: "String_of 1000 = ''1000''"
  by (simp add: String_of.simps [of 1000] String_of.simps [of 100] String_of.simps [of 10]
      String_of.simps [of 1] String_of.simps [of "Suc 0"] digitChar_def)

lemma thousand_rows_facts:
  assumes "r \<in> set (rows thousand_world)"
  shows "originalName r = ''report.pdf'' \<and> filePath r \<noteq> []
         \<and> files thousand_world (filePath r) \<noteq> None"
proof -
  from assms obtain i where i: "i \<in> set [1..<1001]" and r: "r = numbered_record i"
    by (auto simp: thousand_world_def)
  have "filePath r \<in> set (map (\<lambda>i. filePath (numbered_record i)) [1..<1001])"
    using i r by (simp only: set_map) (rule imageI)
  then have "files thousand_world (filePath r) \<noteq> None" by (simp add: thousand_world_def)
  moreover have "originalName r = ''report.pdf''" "filePath r \<noteq> []"
    using r by (simp_all add: numbered_record_def example_record_def)
  ultimately show ?thesis by simp
qed

text \<open>
  Claim C7, as stated, fails from the thousandth record on: in an export of a thousand
  records whose blobs are all on disk, the last file is stored as
  \<^verbatim>\<open>files/1000_report.pdf\<close>, under a number of four digits.
\<close>

theorem thousandth_entry_has_four_digits:
  "length (rows thousand_world) = 1000
   \<and> (\<exists>sheet arch. exportToExcel example_env no_params thousand_world = Inr (sheet, arch)
         \<and> length sheet = 1000 \<and> length arch = 1001
         \<and> fst (arch ! 1000) = ''files/1000_report.pdf''
         \<and> takeWhile isDigit (drop 6 (fst (arch ! 1000))) = ''1000'')"
proof -
  let ?rs = "sort_records (''uploadDateTime'', - 1) (rows thousand_world)"
  let ?present = "\<lambda>(k, r). filePath r \<noteq> [] \<and> files thousand_world (filePath r) \<noteq> None"
  let ?entry = "\<lambda>(k, r). (''files/'' @ uniqueFilename k r, FromFile (filePath r))"
  let ?sheet = "map (\<lambda>(k, r). make_row example_env k r) (enumerate 0 ?rs)"
  let ?arch = "(''records.xlsx'', FromBuffer ?sheet) # map ?entry (filter ?present (enumerate 0 ?rs))"
  have len0: "length (rows thousand_world) = 1000" by (simp add: thousand_world_def)
  have len: "length ?rs = 1000" by (simp add: length_sort_records len0)
  have x: "exportToExcel example_env no_params thousand_world = Inr (?sheet, ?arch)"
    by (rule exportToExcel_Inr) (rule no_params_found)
  have all: "\<forall>x \<in> set (enumerate 0 ?rs). ?present x"
  proof
    fix x assume "x \<in> set (enumerate 0 ?rs)"
    then have "fst x < length ?rs" "?rs ! fst x = snd x" by (auto simp: in_set_enumerate_eq)
    then have "snd x \<in> set ?rs" by (metis nth_mem)
    then have "snd x \<in> set (rows thousand_world)" by (simp add: set_sort_records)
    from thousand_rows_facts [OF this] show "?present x" by (cases x) simp
  qed
  then have fl: "filter ?present (enumerate 0 ?rs) = enumerate 0 ?rs" by (simp add: filter_id_conv)
  have la: "length ?arch = 1001" unfolding fl by (simp add: len)
  have "?rs ! 999 \<in> set ?rs" using len by simp
  then have "?rs ! 999 \<in> set (rows thousand_world)" by (simp add: set_sort_records)
  from thousand_rows_facts [OF this] have on: "originalName (?rs ! 999) = ''report.pdf''" by simp
  have "?arch ! 1000 = map ?entry (enumerate 0 ?rs) ! 999" unfolding fl by simp
  also have "\<dots> = ?entry (999, ?rs ! 999)" using len by (simp add: nth_enumerate_eq)
  finally have "fst (?arch ! 1000) = ''files/'' @ uniqueFilename 999 (?rs ! 999)" by simp
  also have "\<dots> = ''files/1000_report.pdf''"
    by (simp add: uniqueFilename_eq on String_of_1000 padStart_def last_part_def)
  finally have nm: "fst (?arch ! 1000) = ''files/1000_report.pdf''" .
  have dg: "takeWhile isDigit (drop 6 (fst (?arch ! 1000))) = ''1000''"
    unfolding nm by (simp add: isDigit_def)
  have ls: "length ?sheet = 1000" by (simp add: len)
  from len0 x ls la nm dg show ?thesis by blast
qed

end
